theory Spec2Isabelle
  imports Complex_Main "HOL-Library.Word"
begin

unbundle bit_operations_syntax

section \<open>Bytes, strings and slices of the Go program\<close>

text \<open>
  A Go \<^verbatim>\<open>byte\<close> is an 8-bit word. A Go \<^verbatim>\<open>string\<close> is an immutable sequence of bytes
  and a \<^verbatim>\<open>[]byte\<close> a mutable one; both are byte lists here, and every function that
  writes a slice returns the slice it has written. A slice's capacity is taken to be its
  length (what \<^verbatim>\<open>make([]byte, n)\<close> gives), so a slice expression fails exactly when it
  leaves the length. Go's \<^verbatim>\<open>int\<close> values are natural numbers, with every subtraction
  that could go below zero guarded: a negative index is a run-time panic in Go.
\<close>

type_synonym byte = "8 word"
type_synonym gostring = "byte list"

text \<open>A run-time panic of the Go program, as opposed to an error it returns.\<close>

datatype panic =
    IndexOutOfRange
  | SliceBoundsOutOfRange
  | NilMapAssignment
  | TypeAssertionFailed
  | NilPointerDereference
  | ExplicitPanic string

text \<open>The byte-wise image of a text literal, for writing names down.\<close>

definition bytes_of :: "string \<Rightarrow> gostring" where
  "bytes_of s = map of_char s"

definition dot :: byte where
  "dot = 0x2E"

text \<open>\<^verbatim>\<open>xs[i]\<close>: an index expression panics outside \<^verbatim>\<open>0 <= i < len(xs)\<close>.\<close>

definition index_at :: "byte list \<Rightarrow> nat \<Rightarrow> panic + byte" where
  "index_at xs i = (if i < length xs then Inr (xs ! i) else Inl IndexOutOfRange)"

text \<open>\<^verbatim>\<open>xs[i] = v\<close>.\<close>

definition store_at :: "byte list \<Rightarrow> nat \<Rightarrow> byte \<Rightarrow> panic + byte list" where
  "store_at xs i v = (if i < length xs then Inr (xs[i := v]) else Inl IndexOutOfRange)"

text \<open>\<^verbatim>\<open>xs[a:b]\<close>: a slice expression panics unless \<^verbatim>\<open>a <= b <= len(xs)\<close>.\<close>

definition slice :: "byte list \<Rightarrow> nat \<Rightarrow> nat \<Rightarrow> panic + byte list" where
  "slice xs a b =
     (if a \<le> b \<and> b \<le> length xs then Inr (take (b - a) (drop a xs))
      else Inl SliceBoundsOutOfRange)"

text \<open>
  \<^verbatim>\<open>copy(dst[off:], src)\<close>: the slice expression panics when \<^verbatim>\<open>off > len(dst)\<close>;
  \<^verbatim>\<open>copy\<close> then moves \<^verbatim>\<open>min(len(dst) - off, len(src))\<close> bytes and leaves the rest of
  \<^verbatim>\<open>dst\<close> as it was.
\<close>

definition copy_from :: "byte list \<Rightarrow> nat \<Rightarrow> byte list \<Rightarrow> panic + byte list" where
  "copy_from dst off src =
     (if off \<le> length dst
      then Inr (take off dst @ take (length dst - off) src @ drop (off + length src) dst)
      else Inl SliceBoundsOutOfRange)"

section \<open>Key tag (\<^verbatim>\<open>CalculateKeyTag\<close>)\<close>

text \<open>
  The loop of \<^verbatim>\<open>CalculateKeyTag\<close> over \<^verbatim>\<open>rdata = key.Encode()\<close>, with the index \<^verbatim>\<open>i\<close>
  and the 32-bit accumulator \<^verbatim>\<open>ac\<close>. The encoder of the DNSKEY payload is not part of
  the sources at hand, so the function is given the encoded bytes.
\<close>

fun keyTagLoop :: "nat \<Rightarrow> 32 word \<Rightarrow> byte list \<Rightarrow> 32 word" where
  "keyTagLoop i ac [] = ac"
| "keyTagLoop i ac (b # rdata) =
     keyTagLoop (i + 1)
       (if i mod 2 = 1 then ac + ucast b else ac + push_bit 8 (ucast b)) rdata"

definition CalculateKeyTag :: "byte list \<Rightarrow> 16 word" where
  "CalculateKeyTag rdata =
     (let ac = keyTagLoop 0 0 rdata;
          ac' = ac + (drop_bit 16 ac AND 0xFFFF)
      in ucast (ac' AND 0xFFFF))"

text \<open>
  The key tag as the specification words it: the bytes taken pairwise as big-endian
  16-bit words, an odd trailing byte being the high byte of a last word; the words summed
  in a 32-bit accumulator; the high half added to the low half once; the low 16 bits.
\<close>

fun be16_words :: "byte list \<Rightarrow> nat list" where
  "be16_words [] = []"
| "be16_words [hi] = [256 * unat hi]"
| "be16_words (hi # lo # rest) = (256 * unat hi + unat lo) # be16_words rest"

definition keytag_spec :: "byte list \<Rightarrow> nat" where
  "keytag_spec rdata =
     (let acc = sum_list (be16_words rdata) mod 2 ^ 32;
          folded = (acc + (acc div 2 ^ 16) mod 2 ^ 16) mod 2 ^ 32
      in folded mod 2 ^ 16)"

section \<open>Character strings\<close>

definition GetCharacterStrWireLen :: "gostring \<Rightarrow> nat" where
  "GetCharacterStrWireLen cStr =
     (let strLen = length cStr in
      if strLen = 0 then 1
      else let frags = (strLen + 254) div 255 in strLen + frags)"

text \<open>The first loop of \<^verbatim>\<open>EncodeCharacterStr\<close>: whole chunks of 255 bytes.\<close>

function charStrLoop ::
  "gostring \<Rightarrow> byte list \<Rightarrow> nat \<Rightarrow> nat \<Rightarrow> panic + (byte list \<times> nat \<times> nat)" where
  "charStrLoop cStr byteArray rawTvlr enTvlr =
     (if rawTvlr + 255 < length cStr then
        (case store_at byteArray enTvlr 255 of
           Inl p \<Rightarrow> Inl p
         | Inr b1 \<Rightarrow>
            (case slice cStr rawTvlr (rawTvlr + 255) of
               Inl p \<Rightarrow> Inl p
             | Inr src \<Rightarrow>
                (case copy_from b1 (enTvlr + 1) src of
                   Inl p \<Rightarrow> Inl p
                 | Inr b2 \<Rightarrow> charStrLoop cStr b2 (rawTvlr + 255) (enTvlr + 256))))
      else Inr (byteArray, rawTvlr, enTvlr))"
  by pat_completeness auto
termination
  by (relation "measure (\<lambda>(cStr, byteArray, rawTvlr, enTvlr). length cStr - rawTvlr)") auto

definition EncodeCharacterStr :: "gostring \<Rightarrow> panic + byte list" where
  "EncodeCharacterStr cStr =
     (let strLen = length cStr in
      if strLen = 0 then Inr [0x00]
      else
        let encodedLen = GetCharacterStrWireLen cStr;
            byteArray = replicate encodedLen 0
        in (case charStrLoop cStr byteArray 0 0 of
              Inl p \<Rightarrow> Inl p
            | Inr (b1, rawTvlr, enTvlr) \<Rightarrow>
               if rawTvlr < strLen then
                 (case store_at b1 enTvlr (of_nat (strLen - rawTvlr)) of
                    Inl p \<Rightarrow> Inl p
                  | Inr b2 \<Rightarrow>
                     (case slice cStr rawTvlr strLen of
                        Inl p \<Rightarrow> Inl p
                      | Inr src \<Rightarrow> copy_from b2 (enTvlr + 1) src))
               else Inr b1))"

text \<open>
  The chunking as the specification words it: successive chunks of at most 255 bytes,
  each behind its own length byte.
\<close>

function chunks255 :: "byte list \<Rightarrow> byte list list" where
  "chunks255 s = (if s = [] then [] else take 255 s # chunks255 (drop 255 s))"
  by pat_completeness auto
termination
  by (relation "measure length") auto

definition charstr_spec :: "byte list \<Rightarrow> byte list" where
  "charstr_spec s =
     (if s = [] then [0x00]
      else concat (map (\<lambda>c. of_nat (length c) # c) (chunks255 s)))"

section \<open>Domain names\<close>

text \<open>
  An error the program returns: both messages of the name codec say that the buffer is
  too small, with the size required and the size given.
\<close>

datatype error = BufferTooSmall nat nat

definition GetDomainNameWireLen :: "gostring \<Rightarrow> panic + nat" where
  "GetDomainNameWireLen name =
     (let nameLength = length name in
      if nameLength = 0 then Inl IndexOutOfRange
      else
        (case index_at name (nameLength - 1) of
           Inl p \<Rightarrow> Inl p
         | Inr c \<Rightarrow>
            if c = dot then (if nameLength = 1 then Inr 1 else Inr (nameLength + 1))
            else Inr (nameLength + 2)))"

text \<open>
  \<^verbatim>\<open>for index := range *name\<close> ranges over a string by Unicode code point, not by byte:
  \<^verbatim>\<open>index\<close> is the byte index at which each UTF-8 encoded code point starts, and an invalid
  encoding counts as one byte (the replacement character). \<open>runeWidth s\<close> is the number
  of bytes the code point at the start of \<open>s\<close> takes, after the table of Go's UTF-8
  decoder: the first byte gives the length and the range of the second byte, every
  later byte is a continuation byte \<open>0x80..0xBF\<close>, and an encoding that is cut short or
  leaves its ranges is one byte wide.
\<close>

fun accept :: "(nat \<times> nat) list \<Rightarrow> byte list \<Rightarrow> bool" where
  "accept [] bs = True"
| "accept (r # rs) [] = False"
| "accept ((lo, hi) # rs) (b # bs) = (lo \<le> unat b \<and> unat b \<le> hi \<and> accept rs bs)"

text \<open>
  The ranges the bytes after a first byte \<open>x\<close> must lie in for a multi-byte encoding;
  none for an ASCII byte and for a byte that cannot start an encoding.
\<close>

definition contRanges :: "nat \<Rightarrow> (nat \<times> nat) list" where
  "contRanges x =
     (if x < 0x80 then []
      else if 0xC2 \<le> x \<and> x \<le> 0xDF then [(0x80, 0xBF)]
      else if x = 0xE0 then [(0xA0, 0xBF), (0x80, 0xBF)]
      else if (0xE1 \<le> x \<and> x \<le> 0xEC) \<or> x = 0xEE \<or> x = 0xEF then [(0x80, 0xBF), (0x80, 0xBF)]
      else if x = 0xED then [(0x80, 0x9F), (0x80, 0xBF)]
      else if x = 0xF0 then [(0x90, 0xBF), (0x80, 0xBF), (0x80, 0xBF)]
      else if 0xF1 \<le> x \<and> x \<le> 0xF3 then [(0x80, 0xBF), (0x80, 0xBF), (0x80, 0xBF)]
      else if x = 0xF4 then [(0x80, 0x8F), (0x80, 0xBF), (0x80, 0xBF)]
      else [])"

definition runeWidth :: "byte list \<Rightarrow> nat" where
  "runeWidth s =
     (case s of
        [] \<Rightarrow> 1
      | b # rest \<Rightarrow>
         let ranges = contRanges (unat b) in
         if accept ranges rest then 1 + length ranges else 1)"

lemma runeWidth_pos: "0 < runeWidth s"
  by (simp add: runeWidth_def Let_def split: list.split)

text \<open>The indices the \<^verbatim>\<open>range\<close> loop visits in the rest \<open>s\<close> of the string from index \<open>i\<close>.\<close>

function rangeIndices :: "nat \<Rightarrow> byte list \<Rightarrow> nat list" where
  "rangeIndices i s =
     (if s = [] then [] else i # rangeIndices (i + runeWidth s) (drop (runeWidth s) s))"
  by pat_completeness auto
termination
  by (relation "measure (\<lambda>(i, s). length s)") (auto simp: runeWidth_pos)

text \<open>
  The body of the loop that \<^verbatim>\<open>EncodeDomainName\<close> and \<^verbatim>\<open>EncodeDomainNameToBuffer\<close> share
  word for word, on the array written so far and the running \<^verbatim>\<open>labelLength\<close>.
\<close>

definition encodeStep ::
  "gostring \<Rightarrow> byte list \<Rightarrow> nat \<Rightarrow> nat \<Rightarrow> panic + (byte list \<times> nat)" where
  "encodeStep name byteArray labelLength index =
     (case index_at name index of
        Inl p \<Rightarrow> Inl p
      | Inr c \<Rightarrow>
         if c = dot then
           (if index < labelLength then Inl IndexOutOfRange
            else
              (case store_at byteArray (index - labelLength) (of_nat labelLength) of
                 Inl p \<Rightarrow> Inl p
               | Inr b1 \<Rightarrow>
                  (case slice name (index - labelLength) index of
                     Inl p \<Rightarrow> Inl p
                   | Inr src \<Rightarrow>
                      (case copy_from b1 (index - labelLength + 1) src of
                         Inl p \<Rightarrow> Inl p
                       | Inr b2 \<Rightarrow> Inr (b2, 0)))))
         else Inr (byteArray, labelLength + 1))"

fun encodeLoop ::
  "gostring \<Rightarrow> byte list \<Rightarrow> nat \<Rightarrow> nat list \<Rightarrow> panic + (byte list \<times> nat)" where
  "encodeLoop name byteArray labelLength [] = Inr (byteArray, labelLength)"
| "encodeLoop name byteArray labelLength (index # rest) =
     (case encodeStep name byteArray labelLength index of
        Inl p \<Rightarrow> Inl p
      | Inr (b, l) \<Rightarrow> encodeLoop name b l rest)"

text \<open>The loop and the statement after it: the last label of a relative name.\<close>

definition encodeLabels :: "gostring \<Rightarrow> nat \<Rightarrow> byte list \<Rightarrow> panic + byte list" where
  "encodeLabels name encodedLen byteArray =
     (case encodeLoop name byteArray 0 (rangeIndices 0 name) of
        Inl p \<Rightarrow> Inl p
      | Inr (b1, labelLength) \<Rightarrow>
         if labelLength \<noteq> 0 then
           (if encodedLen < labelLength + 2 then Inl IndexOutOfRange
            else
              (case store_at b1 (encodedLen - labelLength - 2) (of_nat labelLength) of
                 Inl p \<Rightarrow> Inl p
               | Inr b2 \<Rightarrow>
                  (if length name < labelLength then Inl SliceBoundsOutOfRange
                   else
                     (case slice name (length name - labelLength) (length name) of
                        Inl p \<Rightarrow> Inl p
                      | Inr src \<Rightarrow> copy_from b2 (encodedLen - labelLength - 1) src))))
         else Inr b1)"

definition EncodeDomainName :: "gostring \<Rightarrow> panic + byte list" where
  "EncodeDomainName name =
     (case GetDomainNameWireLen name of
        Inl p \<Rightarrow> Inl p
      | Inr encodedLen \<Rightarrow>
         let byteArray = replicate encodedLen 0 in
         if encodedLen = 1 then store_at byteArray 0 0x00
         else encodeLabels name encodedLen byteArray)"

text \<open>
  \<^verbatim>\<open>EncodeDomainNameToBuffer\<close> returns the buffer as it leaves it, the length (\<open>-1\<close> with
  an error) and the error, if any.
\<close>

definition EncodeDomainNameToBuffer ::
  "gostring \<Rightarrow> byte list \<Rightarrow> panic + (byte list \<times> int \<times> error option)" where
  "EncodeDomainNameToBuffer name buffer =
     (case GetDomainNameWireLen name of
        Inl p \<Rightarrow> Inl p
      | Inr encodedLen \<Rightarrow>
         if length buffer < encodedLen
         then Inr (buffer, - 1, Some (BufferTooSmall encodedLen (length buffer)))
         else if encodedLen = 1 then
           (case store_at buffer 0 0x00 of
              Inl p \<Rightarrow> Inl p
            | Inr b \<Rightarrow> Inr (b, 1, None))
         else
           (case encodeLabels name encodedLen buffer of
              Inl p \<Rightarrow> Inl p
            | Inr b \<Rightarrow> Inr (b, int encodedLen, None)))"

text \<open>
  The loop of \<^verbatim>\<open>DecodeDomainName\<close>: it reads \<^verbatim>\<open>data[nameLength]\<close> with no check of its
  own, so a read past the data is a panic.
\<close>

function decodeLoop :: "byte list \<Rightarrow> nat \<Rightarrow> gostring \<Rightarrow> panic + (nat \<times> gostring)" where
  "decodeLoop data nameLength name =
     (case index_at data nameLength of
        Inl p \<Rightarrow> Inl p
      | Inr c \<Rightarrow>
         if c = 0x00 then Inr (nameLength, name)
         else
           let labelLength = unat c in
           (case slice data (nameLength + 1) (nameLength + 1 + labelLength) of
              Inl p \<Rightarrow> Inl p
            | Inr label \<Rightarrow>
               decodeLoop data (nameLength + labelLength + 1) (name @ label @ [dot])))"
  by pat_completeness auto
termination
  by (relation "measure (\<lambda>(data, nameLength, name). length data - nameLength)")
     (auto simp: index_at_def split: if_splits)

definition DecodeDomainName :: "byte list \<Rightarrow> panic + gostring" where
  "DecodeDomainName data =
     (case decodeLoop data 0 [] of
        Inl p \<Rightarrow> Inl p
      | Inr (nameLength, name) \<Rightarrow>
         if nameLength \<noteq> 0 then
           (if length name < 1 then Inl SliceBoundsOutOfRange
            else slice name 0 (length name - 1))
         else Inr [dot])"

text \<open>
  \<^verbatim>\<open>DecodeDomainNameFromBuffer\<close> calls itself at a compression pointer, and nothing makes
  the pointer point backwards, so the recursion need not end: the function takes fuel,
  spent on every call and every turn of the loop, and \<open>None\<close> is running out of it. A
  result is the name, the offset after it (\<open>-1\<close> with an error) and the error, if any.
\<close>

type_synonym decoded = "panic + (gostring \<times> int \<times> error option)"

definition decodeFinish :: "nat \<Rightarrow> nat \<Rightarrow> gostring \<Rightarrow> decoded" where
  "decodeFinish offset nameLength name =
     (if nameLength \<noteq> 0 then
        (if length name < 1 then Inl SliceBoundsOutOfRange
         else
           (case slice name 0 (length name - 1) of
              Inl p \<Rightarrow> Inl p
            | Inr name' \<Rightarrow> Inr (name', int (offset + nameLength + 1), None)))
      else Inr ([dot], int (offset + 1), None))"

fun DecodeDomainNameFromBuffer :: "nat \<Rightarrow> byte list \<Rightarrow> nat \<Rightarrow> decoded option"
  and decodeBufferLoop :: "nat \<Rightarrow> byte list \<Rightarrow> nat \<Rightarrow> nat \<Rightarrow> gostring \<Rightarrow> decoded option"
  where
  "DecodeDomainNameFromBuffer 0 data offset = None"
| "DecodeDomainNameFromBuffer (Suc fuel) data offset =
     (let dataLength = length data in
      if dataLength < offset + 1
      then Some (Inr ([], - 1, Some (BufferTooSmall (offset + 1) dataLength)))
      else decodeBufferLoop fuel data offset 0 [])"
| "decodeBufferLoop 0 data offset nameLength name = None"
| "decodeBufferLoop (Suc fuel) data offset nameLength name =
     (case index_at data (offset + nameLength) of
        Inl p \<Rightarrow> Some (Inl p)
      | Inr c \<Rightarrow>
         if c = 0x00 then Some (decodeFinish offset nameLength name)
         else
           let labelLength = unat c in
           if labelLength \<ge> 0xC0 then
             (case index_at data (offset + nameLength + 1) of
                Inl p \<Rightarrow> Some (Inl p)
              | Inr c2 \<Rightarrow>
                 let pointer = (labelLength * 256 + unat c2) mod 0x4000 in
                 (case DecodeDomainNameFromBuffer fuel data pointer of
                    None \<Rightarrow> None
                  | Some (Inl p) \<Rightarrow> Some (Inl p)
                  | Some (Inr (decodedName, next, Some err)) \<Rightarrow> Some (Inr ([], - 1, Some err))
                  | Some (Inr (decodedName, next, None)) \<Rightarrow>
                     Some (decodeFinish offset (nameLength + 1) (name @ decodedName))))
           else if length data < offset + nameLength + labelLength + 1
           then Some (Inr ([], - 1,
                  Some (BufferTooSmall (offset + nameLength + 1 + labelLength) (length data))))
           else
             (case slice data (offset + nameLength + 1) (offset + nameLength + 1 + labelLength) of
                Inl p \<Rightarrow> Some (Inl p)
              | Inr label \<Rightarrow>
                 decodeBufferLoop fuel data offset (nameLength + labelLength + 1)
                   (name @ label @ [dot])))"

section \<open>Signature algorithms\<close>

text \<open>
  The hash identifiers of Go's \<^verbatim>\<open>crypto\<close> package that the program names, and the two
  curves.
\<close>

datatype Hash = SHA1 | SHA256 | SHA384 | SHA512

datatype Curve = P256 | P384

text \<open>
  The cryptography of Go's standard library, which the program calls and does not
  implement, is a parameter: the hash functions; \<^verbatim>\<open>x509.ParsePKCS1PrivateKey\<close> (\<open>None\<close>
  is its error); \<^verbatim>\<open>rsa.SignPKCS1v15\<close> on a parsed key, a hash identifier and a digest;
  \<^verbatim>\<open>ecdsa.Sign\<close> on a curve, the private scalar and a digest, giving \<open>r\<close> and \<open>s\<close> as
  bytes; and key generation, giving the private and the public key bytes. What reads
  \<^verbatim>\<open>rand.Reader\<close> takes the number of earlier draws as its seed.
\<close>

record crypto =
  hashSum :: "Hash \<Rightarrow> byte list \<Rightarrow> byte list"
  parsePKCS1PrivateKey :: "byte list \<Rightarrow> byte list option"
  signPKCS1v15 :: "byte list \<Rightarrow> Hash \<Rightarrow> byte list \<Rightarrow> byte list option"
  ecdsaSign :: "Curve \<Rightarrow> nat \<Rightarrow> byte list \<Rightarrow> byte list \<Rightarrow> (byte list \<times> byte list) option"
  rsaGenerateKey :: "nat \<Rightarrow> (byte list \<times> byte list) option"
  ecdsaGenerateKey :: "Curve \<Rightarrow> nat \<Rightarrow> (byte list \<times> byte list) option"

text \<open>The errors the \<^verbatim>\<open>Sign\<close> methods return.\<close>

datatype signError = FailedToParsePrivateKey | FailedToSign

type_synonym signed = "panic + (signError + byte list)"

definition RSASHA1_Sign :: "crypto \<Rightarrow> byte list \<Rightarrow> byte list \<Rightarrow> signed" where
  "RSASHA1_Sign c data privKey =
     (let digest = hashSum c SHA1 data in
      case parsePKCS1PrivateKey c privKey of
        None \<Rightarrow> Inr (Inl FailedToParsePrivateKey)
      | Some pKey \<Rightarrow>
         (case signPKCS1v15 c pKey SHA256 digest of
            None \<Rightarrow> Inr (Inl FailedToSign)
          | Some signature \<Rightarrow> Inr (Inr signature)))"

definition RSASHA256_Sign :: "crypto \<Rightarrow> byte list \<Rightarrow> byte list \<Rightarrow> signed" where
  "RSASHA256_Sign c data privKey =
     (let digest = hashSum c SHA256 data in
      case parsePKCS1PrivateKey c privKey of
        None \<Rightarrow> Inr (Inl FailedToParsePrivateKey)
      | Some pKey \<Rightarrow>
         (case signPKCS1v15 c pKey SHA256 digest of
            None \<Rightarrow> Inr (Inl FailedToSign)
          | Some signature \<Rightarrow> Inr (Inr signature)))"

text \<open>
  \<^verbatim>\<open>RSASHA512.Sign\<close> does not look at the error of the parser: a key that does not
  parse is a nil pointer handed to \<^verbatim>\<open>rsa.SignPKCS1v15\<close>.
\<close>

definition RSASHA512_Sign :: "crypto \<Rightarrow> byte list \<Rightarrow> byte list \<Rightarrow> signed" where
  "RSASHA512_Sign c data privKey =
     (let digest = hashSum c SHA512 data in
      case parsePKCS1PrivateKey c privKey of
        None \<Rightarrow> Inl NilPointerDereference
      | Some pKey \<Rightarrow>
         (case signPKCS1v15 c pKey SHA512 digest of
            None \<Rightarrow> Inr (Inl FailedToSign)
          | Some signature \<Rightarrow> Inr (Inr signature)))"

definition ECDSAP256SHA256_Sign :: "crypto \<Rightarrow> nat \<Rightarrow> byte list \<Rightarrow> byte list \<Rightarrow> signed" where
  "ECDSAP256SHA256_Sign c seed data privKey =
     (let digest = hashSum c SHA256 data in
      case ecdsaSign c P256 seed privKey digest of
        None \<Rightarrow> Inr (Inl FailedToSign)
      | Some (r, s) \<Rightarrow> Inr (Inr (r @ s)))"

definition ECDSAP384SHA384_Sign :: "crypto \<Rightarrow> nat \<Rightarrow> byte list \<Rightarrow> byte list \<Rightarrow> signed" where
  "ECDSAP384SHA384_Sign c seed data privKey =
     (let digest = hashSum c SHA384 data in
      case ecdsaSign c P384 seed privKey digest of
        None \<Rightarrow> Inr (Inl FailedToSign)
      | Some (r, s) \<Rightarrow> Inr (Inr (r @ s)))"

text \<open>
  The algorithm numbers are constants of package \<^verbatim>\<open>dns\<close>, which is not among the
  sources at hand; they are taken at their values in the DNSSEC standard.
\<close>

type_synonym DNSSECAlgorithm = "8 word"

definition DNSSECAlgorithmRSASHA1 :: DNSSECAlgorithm where
  "DNSSECAlgorithmRSASHA1 = 5"

definition DNSSECAlgorithmRSASHA256 :: DNSSECAlgorithm where
  "DNSSECAlgorithmRSASHA256 = 8"

definition DNSSECAlgorithmRSASHA512 :: DNSSECAlgorithm where
  "DNSSECAlgorithmRSASHA512 = 10"

definition DNSSECAlgorithmECDSAP256SHA256 :: DNSSECAlgorithm where
  "DNSSECAlgorithmECDSAP256SHA256 = 13"

definition DNSSECAlgorithmECDSAP384SHA384 :: DNSSECAlgorithm where
  "DNSSECAlgorithmECDSAP384SHA384 = 14"

datatype DNSSECAlgorithmer = RSASHA1 | RSASHA256 | RSASHA512 | ECDSAP256SHA256 | ECDSAP384SHA384

definition DNSSECAlgorithmerFactory :: "DNSSECAlgorithm \<Rightarrow> panic + DNSSECAlgorithmer" where
  "DNSSECAlgorithmerFactory algo =
     (if algo = DNSSECAlgorithmRSASHA1 then Inr RSASHA1
      else if algo = DNSSECAlgorithmRSASHA256 then Inr RSASHA256
      else if algo = DNSSECAlgorithmRSASHA512 then Inr RSASHA512
      else if algo = DNSSECAlgorithmECDSAP256SHA256 then Inr ECDSAP256SHA256
      else if algo = DNSSECAlgorithmECDSAP384SHA384 then Inr ECDSAP384SHA384
      else Inl (ExplicitPanic ''unsupported algorithm''))"

text \<open>The method \<^verbatim>\<open>Sign\<close> of each variant, and the draws from the random source it makes.\<close>

fun Sign :: "crypto \<Rightarrow> DNSSECAlgorithmer \<Rightarrow> nat \<Rightarrow> byte list \<Rightarrow> byte list \<Rightarrow> signed" where
  "Sign c RSASHA1 seed data privKey = RSASHA1_Sign c data privKey"
| "Sign c RSASHA256 seed data privKey = RSASHA256_Sign c data privKey"
| "Sign c RSASHA512 seed data privKey = RSASHA512_Sign c data privKey"
| "Sign c ECDSAP256SHA256 seed data privKey = ECDSAP256SHA256_Sign c seed data privKey"
| "Sign c ECDSAP384SHA384 seed data privKey = ECDSAP384SHA384_Sign c seed data privKey"

fun signDraws :: "DNSSECAlgorithmer \<Rightarrow> nat" where
  "signDraws ECDSAP256SHA256 = 1"
| "signDraws ECDSAP384SHA384 = 1"
| "signDraws a = 0"

text \<open>The method \<^verbatim>\<open>GenerateKey\<close>: a failure of the generator is a panic.\<close>

fun GenerateKey :: "crypto \<Rightarrow> DNSSECAlgorithmer \<Rightarrow> nat \<Rightarrow> panic + (byte list \<times> byte list)" where
  "GenerateKey c ECDSAP256SHA256 seed =
     (case ecdsaGenerateKey c P256 seed of
        None \<Rightarrow> Inl (ExplicitPanic ''failed to generate ECDSA key'')
      | Some keys \<Rightarrow> Inr keys)"
| "GenerateKey c ECDSAP384SHA384 seed =
     (case ecdsaGenerateKey c P384 seed of
        None \<Rightarrow> Inl (ExplicitPanic ''failed to generate ECDSA key'')
      | Some keys \<Rightarrow> Inr keys)"
| "GenerateKey c a seed =
     (case rsaGenerateKey c seed of
        None \<Rightarrow> Inl (ExplicitPanic ''failed to generate RSA key'')
      | Some keys \<Rightarrow> Inr keys)"

text \<open>
  What the specification says of the RSA variants: the digest of the data under the hash
  the variant is named after, signed with PKCS#1 v1.5 under that same hash identifier.
\<close>

fun impliedHash :: "DNSSECAlgorithmer \<Rightarrow> Hash" where
  "impliedHash RSASHA1 = SHA1"
| "impliedHash RSASHA256 = SHA256"
| "impliedHash RSASHA512 = SHA512"
| "impliedHash ECDSAP256SHA256 = SHA256"
| "impliedHash ECDSAP384SHA384 = SHA384"

definition rsa_sign_spec ::
  "crypto \<Rightarrow> DNSSECAlgorithmer \<Rightarrow> byte list \<Rightarrow> byte list \<Rightarrow> signed" where
  "rsa_sign_spec c variant data privKey =
     (case parsePKCS1PrivateKey c privKey of
        None \<Rightarrow> Inr (Inl FailedToParsePrivateKey)
      | Some pKey \<Rightarrow>
         (case signPKCS1v15 c pKey (impliedHash variant)
                 (hashSum c (impliedHash variant) data) of
            None \<Rightarrow> Inr (Inl FailedToSign)
          | Some signature \<Rightarrow> Inr (Inr signature)))"

text \<open>
  A small instance of the cryptography, to run the program on: a digest is the hash's tag
  and the length and the byte sum of the data, a PKCS#1 v1.5 signature shows the hash
  identifier it was made under, then the digest and the key, and the \<open>n\<close>-th key drawn
  is made of \<open>n\<close>.
\<close>

fun hashTag :: "Hash \<Rightarrow> byte" where
  "hashTag SHA1 = 1"
| "hashTag SHA256 = 2"
| "hashTag SHA384 = 4"
| "hashTag SHA512 = 6"

definition exampleCrypto :: crypto where
  "exampleCrypto =
     \<lparr> hashSum = (\<lambda>h data. [hashTag h, of_nat (length data), sum_list data]),
       parsePKCS1PrivateKey = (\<lambda>k. if k = [] then None else Some k),
       signPKCS1v15 = (\<lambda>k h digest. Some (hashTag h # digest @ k)),
       ecdsaSign = (\<lambda>curve seed k digest. if k = [] then None else Some (of_nat seed # k, digest)),
       rsaGenerateKey = (\<lambda>seed. Some ([0x50, of_nat seed], [0x51, of_nat seed])),
       ecdsaGenerateKey = (\<lambda>curve seed. Some ([0x60, of_nat seed], [0x61, of_nat seed])) \<rparr>"

section \<open>DNS messages\<close>

text \<open>
  The record types, their type codes and the response codes are declared in package
  \<^verbatim>\<open>dns\<close>, which is not among the sources at hand; the fields are the ones the
  responder reads and writes, and the constants are taken at their values in the DNS
  standard (the responder only compares them).
\<close>

type_synonym DNSType = "16 word"

definition DNSRRTypeA :: DNSType where
  "DNSRRTypeA = 1"

definition DNSRRTypeDS :: DNSType where
  "DNSRRTypeDS = 43"

definition DNSRRTypeRRSIG :: DNSType where
  "DNSRRTypeRRSIG = 46"

definition DNSRRTypeDNSKEY :: DNSType where
  "DNSRRTypeDNSKEY = 48"

type_synonym DNSClass = "16 word"

definition DNSClassIN :: DNSClass where
  "DNSClassIN = 1"

type_synonym DNSResponseCode = "8 word"

definition DNSResponseCodeNoErr :: DNSResponseCode where
  "DNSResponseCodeNoErr = 0"

definition DNSResponseCodeNXDomain :: DNSResponseCode where
  "DNSResponseCodeNXDomain = 3"

type_synonym DNSKEYFlag = "16 word"

definition DNSKEYFlagZoneKey :: DNSKEYFlag where
  "DNSKEYFlagZoneKey = 256"

definition DNSKEYFlagSecureEntryPoint :: DNSKEYFlag where
  "DNSKEYFlagSecureEntryPoint = 257"

type_synonym DNSSECDigestType = "8 word"

definition DNSSECDigestTypeSHA1 :: DNSSECDigestType where
  "DNSSECDigestTypeSHA1 = 1"

definition DNSSECDigestTypeSHA256 :: DNSSECDigestType where
  "DNSSECDigestTypeSHA256 = 2"

definition DNSSECDigestTypeSHA384 :: DNSSECDigestType where
  "DNSSECDigestTypeSHA384 = 4"

record DNSHeader =
  ID :: "16 word"
  QR :: bool
  OpCode :: "8 word"
  AA :: bool
  TC :: bool
  RD :: bool
  RA :: bool
  Z :: "8 word"
  RCode :: DNSResponseCode
  QDCount :: "16 word"
  ANCount :: "16 word"
  NSCount :: "16 word"
  ARCount :: "16 word"

text \<open>A question's fields \<^verbatim>\<open>Name\<close>, \<^verbatim>\<open>Type\<close> and \<^verbatim>\<open>Class\<close>.\<close>

record DNSQuestion =
  QName :: gostring
  QType :: DNSType
  QClass :: DNSClass

record DNSRDATADNSKEY =
  Flags :: DNSKEYFlag
  Protocol :: "8 word"
  Algorithm :: DNSSECAlgorithm
  PublicKey :: "byte list"

text \<open>The payload of an RRSIG and of a DS record; both have a field \<^verbatim>\<open>Algorithm\<close>.\<close>

record DNSRDATARRSIG =
  TypeCovered :: DNSType
  SigAlgorithm :: DNSSECAlgorithm
  Labels :: "8 word"
  OriginalTTL :: "32 word"
  Expiration :: "32 word"
  Inception :: "32 word"
  KeyTag :: "16 word"
  SignerName :: gostring
  Signature :: "byte list"

record DNSRDATADS =
  DSKeyTag :: "16 word"
  DSAlgorithm :: DNSSECAlgorithm
  DigestType :: DNSSECDigestType
  Digest :: "byte list"

text \<open>The payload of a record: the variants the responder makes.\<close>

datatype DNSRRRDATA =
    RDATAA "byte list"
  | RDATADNSKEY DNSRDATADNSKEY
  | RDATARRSIG DNSRDATARRSIG
  | RDATADS DNSRDATADS

record DNSResourceRecord =
  Name :: gostring
  Type :: DNSType
  Class :: DNSClass
  TTL :: "32 word"
  RDLen :: "16 word"
  RData :: DNSRRRDATA

record DNSMessage =
  Header :: DNSHeader
  Question :: "DNSQuestion list"
  Answer :: "DNSResourceRecord list"
  Authority :: "DNSResourceRecord list"
  Additional :: "DNSResourceRecord list"

text \<open>
  \<^verbatim>\<open>QueryInfo\<close> and \<^verbatim>\<open>ResponseInfo\<close> have the same four fields; \<^verbatim>\<open>DNS\<close> is a pointer to
  a message, \<open>None\<close> when nil.
\<close>

record PacketInfo =
  MAC :: "byte list"
  IP :: "byte list"
  Port :: nat
  DNS :: "DNSMessage option"

type_synonym QueryInfo = PacketInfo
type_synonym ResponseInfo = PacketInfo

text \<open>
  The functions of package \<^verbatim>\<open>dns\<close> that the DNSSEC code calls and that are not among
  the sources: the name of the zone above a name, the number of labels of a name, and the
  encoders of the payloads and of a whole record. A payload's \<^verbatim>\<open>Size()\<close> is taken to
  be the length of its encoding, so the encoders into a buffer of that size do not fail.
\<close>

record codec =
  GetUpperDomainName :: "gostring \<Rightarrow> gostring"
  CountDomainNameLabels :: "gostring \<Rightarrow> nat"
  dnskeyEncode :: "DNSRDATADNSKEY \<Rightarrow> byte list"
  rrsigEncode :: "DNSRDATARRSIG \<Rightarrow> byte list"
  dsEncode :: "DNSRDATADS \<Rightarrow> byte list"
  rrEncode :: "DNSResourceRecord \<Rightarrow> byte list"

text \<open>What the program takes from outside: the cryptography, that codec and the clock.\<close>

record env =
  Crypto :: crypto
  Codec :: codec
  now :: int

section \<open>DNSSEC records\<close>

definition GenerateDNSKEY ::
  "env \<Rightarrow> DNSSECAlgorithm \<Rightarrow> DNSKEYFlag \<Rightarrow> nat
     \<Rightarrow> panic + ((DNSRDATADNSKEY \<times> byte list) \<times> nat)" where
  "GenerateDNSKEY e algo flag seed =
     (case DNSSECAlgorithmerFactory algo of
        Inl p \<Rightarrow> Inl p
      | Inr algorithmer \<Rightarrow>
         (case GenerateKey (Crypto e) algorithmer seed of
            Inl p \<Rightarrow> Inl p
          | Inr (privKey, pubKey) \<Rightarrow>
             Inr ((\<lparr> Flags = flag, Protocol = 3, Algorithm = algo, PublicKey = pubKey \<rparr>,
                   privKey), seed + 1)))"

text \<open>
  \<^verbatim>\<open>GenerateRRSIG\<close>: the text signed is the RRSIG payload with an empty signature, then
  the records in the order given. A signer that returns an error is a panic.
\<close>

definition GenerateRRSIG ::
  "env \<Rightarrow> DNSResourceRecord list \<Rightarrow> DNSSECAlgorithm \<Rightarrow> 32 word \<Rightarrow> 32 word \<Rightarrow> 16 word
     \<Rightarrow> gostring \<Rightarrow> byte list \<Rightarrow> nat \<Rightarrow> panic + (DNSRDATARRSIG \<times> nat)" where
  "GenerateRRSIG e rrSet algo expiration inception keyTag signerName privKey seed =
     (case rrSet of
        [] \<Rightarrow> Inl IndexOutOfRange
      | rr0 # others \<Rightarrow>
         let rrsig = \<lparr> TypeCovered = Type rr0, SigAlgorithm = algo,
                       Labels = of_nat (CountDomainNameLabels (Codec e) (Name rr0)),
                       OriginalTTL = TTL rr0, Expiration = expiration,
                       Inception = inception, KeyTag = keyTag, SignerName = signerName,
                       Signature = [] \<rparr>;
             plainText = rrsigEncode (Codec e) rrsig @ concat (map (rrEncode (Codec e)) rrSet)
         in (case DNSSECAlgorithmerFactory algo of
               Inl p \<Rightarrow> Inl p
             | Inr algorithmer \<Rightarrow>
                (case Sign (Crypto e) algorithmer seed plainText privKey of
                   Inl p \<Rightarrow> Inl p
                 | Inr (Inl err) \<Rightarrow> Inl (ExplicitPanic ''failed to sign RRSIG'')
                 | Inr (Inr signature) \<Rightarrow>
                    Inr (rrsig\<lparr> Signature := signature \<rparr>, seed + signDraws algorithmer))))"

definition GenerateDS ::
  "env \<Rightarrow> gostring \<Rightarrow> DNSRDATADNSKEY \<Rightarrow> DNSSECDigestType \<Rightarrow> panic + DNSRDATADS" where
  "GenerateDS e oName kRDATA dType =
     (let keyTag = CalculateKeyTag (dnskeyEncode (Codec e) kRDATA) in
      case GetDomainNameWireLen oName of
        Inl p \<Rightarrow> Inl p
      | Inr wireLen \<Rightarrow>
         let pText = replicate (wireLen + length (dnskeyEncode (Codec e) kRDATA)) 0 in
         (case EncodeDomainNameToBuffer oName pText of
            Inl p \<Rightarrow> Inl p
          | Inr (buf, offset, Some err) \<Rightarrow> Inl (ExplicitPanic ''failed to write domain name'')
          | Inr (buf, offset, None) \<Rightarrow>
             (case copy_from buf (nat offset) (dnskeyEncode (Codec e) kRDATA) of
                Inl p \<Rightarrow> Inl p
              | Inr pText' \<Rightarrow>
                 if dType = DNSSECDigestTypeSHA1 then
                   Inr \<lparr> DSKeyTag = keyTag, DSAlgorithm = Algorithm kRDATA, DigestType = dType,
                         Digest = hashSum (Crypto e) SHA1 pText' \<rparr>
                 else if dType = DNSSECDigestTypeSHA256 then
                   Inr \<lparr> DSKeyTag = keyTag, DSAlgorithm = Algorithm kRDATA, DigestType = dType,
                         Digest = hashSum (Crypto e) SHA256 pText' \<rparr>
                 else if dType = DNSSECDigestTypeSHA384 then
                   Inr \<lparr> DSKeyTag = keyTag, DSAlgorithm = Algorithm kRDATA, DigestType = dType,
                         Digest = hashSum (Crypto e) SHA384 pText' \<rparr>
                 else Inl (ExplicitPanic ''unsupported digest type''))))"

section \<open>The DNSSEC responder\<close>

record DNSSECConfig =
  dAlgo :: DNSSECAlgorithm
  dType :: DNSSECDigestType

record DNSSECMaterial =
  KSKTag :: nat
  ZSKTag :: nat
  PrivateKSK :: "byte list"
  PrivateZSK :: "byte list"
  DNSKEYRespSec :: "DNSResourceRecord list"

text \<open>
  The responder's configuration: the address of the server (\<^verbatim>\<open>ServerConf.IP\<close>), the
  default response and the DNSSEC configuration. Its map of key material is shared by
  all its copies and written in place, so it is part of the state below.
\<close>

record DNSSECResponser =
  ServerIP :: "byte list"
  DefaultResp :: ResponseInfo
  DNSSECConf :: DNSSECConfig

text \<open>
  The state a call of \<^verbatim>\<open>Response\<close> reads and writes: the map from zone names to key
  material (\<open>None\<close> is the nil map, which reads as empty and panics when written), and
  the number of draws made from the random source.
\<close>

record world =
  DNSSECMap :: "(gostring \<rightharpoonup> DNSSECMaterial) option"
  entropy :: nat

text \<open>The value a Go map gives for a key it does not hold: the zero material.\<close>

definition zeroMaterial :: DNSSECMaterial where
  "zeroMaterial =
     \<lparr> KSKTag = 0, ZSKTag = 0, PrivateKSK = [], PrivateZSK = [], DNSKEYRespSec = [] \<rparr>"

definition lookupMaterial :: "world \<Rightarrow> gostring \<Rightarrow> DNSSECMaterial option" where
  "lookupMaterial w zoneName =
     (case DNSSECMap w of None \<Rightarrow> None | Some m \<Rightarrow> m zoneName)"

definition storeMaterial :: "world \<Rightarrow> gostring \<Rightarrow> DNSSECMaterial \<Rightarrow> panic + world" where
  "storeMaterial w zoneName mat =
     (case DNSSECMap w of
        None \<Rightarrow> Inl NilMapAssignment
      | Some m \<Rightarrow> Inr (w\<lparr> DNSSECMap := Some (m(zoneName \<mapsto> mat)) \<rparr>))"

definition signatureExpiration :: "env \<Rightarrow> 32 word" where
  "signatureExpiration e = of_int (now e + 86400 - 3600)"

definition signatureInception :: "env \<Rightarrow> 32 word" where
  "signatureInception e = of_int (now e - 3600)"

definition CreateDNSSECMat ::
  "env \<Rightarrow> DNSSECResponser \<Rightarrow> gostring \<Rightarrow> nat \<Rightarrow> panic + (DNSSECMaterial \<times> nat)" where
  "CreateDNSSECMat e d zoneName seed =
     (case GenerateDNSKEY e (dAlgo (DNSSECConf d)) DNSKEYFlagSecureEntryPoint seed of
        Inl p \<Rightarrow> Inl p
      | Inr ((pubKskRDATA, privKskBytes), seed1) \<Rightarrow>
     (case GenerateDNSKEY e (dAlgo (DNSSECConf d)) DNSKEYFlagZoneKey seed1 of
        Inl p \<Rightarrow> Inl p
      | Inr ((pubZskRDATA, privZskBytes), seed2) \<Rightarrow>
         let pubZskRR = \<lparr> Name = zoneName, Type = DNSRRTypeDNSKEY, Class = DNSClassIN,
                          TTL = 86400,
                          RDLen = of_nat (length (dnskeyEncode (Codec e) pubZskRDATA)),
                          RData = RDATADNSKEY pubZskRDATA \<rparr>;
             pubKskRR = \<lparr> Name = zoneName, Type = DNSRRTypeDNSKEY, Class = DNSClassIN,
                          TTL = 86400,
                          RDLen = of_nat (length (dnskeyEncode (Codec e) pubKskRDATA)),
                          RData = RDATADNSKEY pubKskRDATA \<rparr>
         in (case GenerateRRSIG e [pubZskRR, pubKskRR] (dAlgo (DNSSECConf d))
                   (signatureExpiration e) (signatureInception e)
                   (CalculateKeyTag (dnskeyEncode (Codec e) pubKskRDATA))
                   zoneName privKskBytes seed2 of
               Inl p \<Rightarrow> Inl p
             | Inr (keySetSig, seed3) \<Rightarrow>
                let sigRec = \<lparr> Name = zoneName, Type = DNSRRTypeRRSIG, Class = DNSClassIN,
                               TTL = 86400,
                               RDLen = of_nat (length (rrsigEncode (Codec e) keySetSig)),
                               RData = RDATARRSIG keySetSig \<rparr>;
                    anSec = [pubZskRR, pubKskRR, sigRec]
                in Inr (\<lparr> KSKTag = unat (CalculateKeyTag (dnskeyEncode (Codec e) pubKskRDATA)),
                           ZSKTag = unat (CalculateKeyTag (dnskeyEncode (Codec e) pubZskRDATA)),
                           PrivateKSK = privKskBytes, PrivateZSK = privZskBytes,
                           DNSKEYRespSec = anSec \<rparr>, seed3))))"

text \<open>
  \<^verbatim>\<open>InitResp\<close>: the default response, addressed to the asker, with a new message that
  has the default header, the identifier, question count and questions of the query, and
  empty sections. The two messages are behind pointers.
\<close>

definition InitResp :: "DNSSECResponser \<Rightarrow> QueryInfo \<Rightarrow> panic + (ResponseInfo \<times> DNSMessage)" where
  "InitResp d qInfo =
     (case DNS (DefaultResp d) of
        None \<Rightarrow> Inl NilPointerDereference
      | Some dflt \<Rightarrow>
         (case DNS qInfo of
            None \<Rightarrow> Inl NilPointerDereference
          | Some query \<Rightarrow>
             let msg = \<lparr> Header = (Header dflt)\<lparr> ID := ID (Header query),
                                                  QDCount := QDCount (Header query) \<rparr>,
                          Question = Question query,
                          Answer = [], Authority = [], Additional = [] \<rparr>
             in Inr ((DefaultResp d)\<lparr> MAC := MAC qInfo, IP := IP qInfo, Port := Port qInfo,
                                       DNS := Some msg \<rparr>, msg)))"

text \<open>The answer section, its count and the response code written into the response.\<close>

definition answerWith ::
  "ResponseInfo \<Rightarrow> DNSMessage \<Rightarrow> DNSResourceRecord list \<Rightarrow> 16 word \<Rightarrow> ResponseInfo" where
  "answerWith rInfo msg answer count =
     rInfo\<lparr> DNS := Some (msg\<lparr> Answer := answer,
                                 Header := (Header msg)\<lparr> ANCount := count,
                                                         RCode := DNSResponseCodeNoErr \<rparr> \<rparr>) \<rparr>"

text \<open>The map entry of a zone, made and stored first when the map has none.\<close>

definition getOrCreateMaterial ::
  "env \<Rightarrow> DNSSECResponser \<Rightarrow> world \<Rightarrow> gostring \<Rightarrow> panic + (DNSSECMaterial \<times> world)" where
  "getOrCreateMaterial e d w zoneName =
     (case lookupMaterial w zoneName of
        Some dnssecMat \<Rightarrow> Inr (dnssecMat, w)
      | None \<Rightarrow>
         (case CreateDNSSECMat e d zoneName (entropy w) of
            Inl p \<Rightarrow> Inl p
          | Inr (mat, seed') \<Rightarrow>
             (case storeMaterial (w\<lparr> entropy := seed' \<rparr>) zoneName mat of
                Inl p \<Rightarrow> Inl p
              | Inr w' \<Rightarrow> Inr (mat, w'))))"

text \<open>The record and its signature that the DS branch and the default branch answer with.\<close>

definition signedAnswer ::
  "env \<Rightarrow> DNSSECResponser \<Rightarrow> ResponseInfo \<Rightarrow> DNSMessage \<Rightarrow> gostring \<Rightarrow> DNSResourceRecord
     \<Rightarrow> gostring \<Rightarrow> DNSSECMaterial \<Rightarrow> world \<Rightarrow> panic + (ResponseInfo \<times> world)" where
  "signedAnswer e d rInfo msg qName rec qSignerName dnssecMat w =
     (case GenerateRRSIG e [rec] (dAlgo (DNSSECConf d))
             (signatureExpiration e) (signatureInception e)
             (of_nat (ZSKTag dnssecMat)) qSignerName (PrivateZSK dnssecMat) (entropy w) of
        Inl p \<Rightarrow> Inl p
      | Inr (sig, seed') \<Rightarrow>
         let sigRec = \<lparr> Name = qName, Type = DNSRRTypeRRSIG, Class = DNSClassIN, TTL = 86400,
                        RDLen = of_nat (length (rrsigEncode (Codec e) sig)),
                        RData = RDATARRSIG sig \<rparr>
         in Inr (answerWith rInfo msg [rec, sigRec] 2, w\<lparr> entropy := seed' \<rparr>))"

definition Response ::
  "env \<Rightarrow> DNSSECResponser \<Rightarrow> QueryInfo \<Rightarrow> world \<Rightarrow> panic + (ResponseInfo \<times> world)" where
  "Response e d qInfo w =
     (case InitResp d qInfo of
        Inl p \<Rightarrow> Inl p
      | Inr (rInfo, msg) \<Rightarrow>
         (case Question msg of
            [] \<Rightarrow> Inl IndexOutOfRange
          | q0 # qs \<Rightarrow>
             let qType = QType q0; qName = QName q0 in
             if qType = DNSRRTypeDNSKEY then
               (case getOrCreateMaterial e d w qName of
                  Inl p \<Rightarrow> Inl p
                | Inr (dnssecMat, w') \<Rightarrow>
                   Inr (answerWith rInfo msg (DNSKEYRespSec dnssecMat)
                          (of_nat (length (DNSKEYRespSec dnssecMat))), w'))
             else if qType = DNSRRTypeDS then
               (let childMat = (case lookupMaterial w qName of
                                  None \<Rightarrow> zeroMaterial | Some mat \<Rightarrow> mat) in
                if length (DNSKEYRespSec childMat) \<le> 1 then Inl IndexOutOfRange
                else
                  (case RData (DNSKEYRespSec childMat ! 1) of
                     RDATADNSKEY ksk \<Rightarrow>
                      (case GenerateDS e qName ksk (dType (DNSSECConf d)) of
                         Inl p \<Rightarrow> Inl p
                       | Inr ds \<Rightarrow>
                          let qSignerName = GetUpperDomainName (Codec e) qName;
                              rec = \<lparr> Name = qName, Type = DNSRRTypeDS, Class = DNSClassIN,
                                      TTL = 86400,
                                      RDLen = of_nat (length (dsEncode (Codec e) ds)),
                                      RData = RDATADS ds \<rparr>;
                              dnssecMat = (case lookupMaterial w qSignerName of
                                             None \<Rightarrow> zeroMaterial | Some mat \<Rightarrow> mat)
                          in signedAnswer e d rInfo msg qName rec qSignerName dnssecMat w)
                   | other \<Rightarrow> Inl TypeAssertionFailed))
             else
               (let rec = \<lparr> Name = qName, Type = DNSRRTypeA, Class = DNSClassIN, TTL = 86400,
                             RDLen = 0, RData = RDATAA (ServerIP d) \<rparr>;
                    upper = GetUpperDomainName (Codec e) qName;
                    qSignerName = (if upper = [dot] then qName else upper)
                in (case getOrCreateMaterial e d w qSignerName of
                      Inl p \<Rightarrow> Inl p
                    | Inr (dnssecMat, w') \<Rightarrow>
                       signedAnswer e d rInfo msg qName rec qSignerName dnssecMat w'))))"

section \<open>The key material of a zone, as the specification describes it\<close>







section \<open>An example configuration\<close>

text \<open>
  A codec, a clock and the cryptography above make an environment to run the responder
  in; the responder takes its default header as a parameter and signs with RSA-SHA256.
\<close>

definition exampleCodec :: codec where
  "exampleCodec =
     \<lparr> GetUpperDomainName =
         (\<lambda>name. case dropWhile (\<lambda>c. c \<noteq> dot) name of
                    [] \<Rightarrow> [dot]
                  | d # rest \<Rightarrow> if rest = [] then [dot] else rest),
       CountDomainNameLabels = (\<lambda>name. length (filter (\<lambda>c. c = dot) name)),
       dnskeyEncode =
         (\<lambda>k. [ucast (drop_bit 8 (Flags k)), ucast (Flags k), Protocol k, Algorithm k]
               @ PublicKey k),
       rrsigEncode = (\<lambda>s. ucast (TypeCovered s) # SigAlgorithm s # SignerName s @ Signature s),
       dsEncode = (\<lambda>ds. ucast (DSKeyTag ds) # DSAlgorithm ds # DigestType ds # Digest ds),
       rrEncode = (\<lambda>rr. Name rr @ [ucast (Type rr), ucast (RDLen rr)]) \<rparr>"

definition exampleEnv :: env where
  "exampleEnv = \<lparr> Crypto = exampleCrypto, Codec = exampleCodec, now = 1700000000 \<rparr>"

definition exampleHeader :: DNSHeader where
  "exampleHeader =
     \<lparr> ID = 0, QR = True, OpCode = 0, AA = True, TC = False, RD = False, RA = False, Z = 0,
       RCode = DNSResponseCodeNXDomain, QDCount = 0, ANCount = 0, NSCount = 0, ARCount = 0 \<rparr>"

definition exampleResponser :: "DNSHeader \<Rightarrow> DNSSECResponser" where
  "exampleResponser header =
     \<lparr> ServerIP = [10, 10, 0, 3],
       DefaultResp =
         \<lparr> MAC = [], IP = [], Port = 0,
           DNS = Some \<lparr> Header = header, Question = [], Answer = [], Authority = [],
                        Additional = [] \<rparr> \<rparr>,
       DNSSECConf = \<lparr> dAlgo = DNSSECAlgorithmRSASHA256, dType = DNSSECDigestTypeSHA256 \<rparr> \<rparr>"

definition exampleQuery :: "16 word \<Rightarrow> DNSType \<Rightarrow> string \<Rightarrow> QueryInfo" where
  "exampleQuery ident qType qName =
     \<lparr> MAC = [2, 0x42, 10, 10, 3, 4], IP = [10, 10, 3, 4], Port = 57059,
       DNS = Some \<lparr> Header = \<lparr> ID = ident, QR = False, OpCode = 0, AA = False, TC = False,
                               RD = True, RA = False, Z = 0, RCode = 0, QDCount = 1,
                               ANCount = 0, NSCount = 0, ARCount = 0 \<rparr>,
                    Question = [\<lparr> QName = bytes_of qName, QType = qType,
                                  QClass = DNSClassIN \<rparr>],
                    Answer = [], Authority = [], Additional = [] \<rparr> \<rparr>"

definition emptyWorld :: world where
  "emptyWorld = \<lparr> DNSSECMap = Some Map.empty, entropy = 0 \<rparr>"







section \<open>Properties of the key tag\<close>

lemma push_bit_8_ucast: "push_bit 8 (ucast (b::byte) :: 32 word) = of_nat (256 * unat b)"
  by (simp add: push_bit_eq_mult mult.commute)

lemma keyTagLoop_even:
  "even i \<Longrightarrow> keyTagLoop i ac bs = ac + of_nat (sum_list (be16_words bs))"
proof (induction bs arbitrary: i ac rule: be16_words.induct)
  case 1
  then show ?case by simp
next
  case (2 hi)
  then have "i mod 2 \<noteq> 1" by presburger
  then show ?case by (simp add: push_bit_8_ucast del: of_nat_mult)
next
  case (3 hi lo rest)
  have e: "even (i + 1 + 1)" using 3(2) by simp
  have o: "(i + 1) mod 2 = 1" "i mod 2 \<noteq> 1" using 3(2) by presburger+
  show ?case using 3(1)[OF e] o
    by (simp add: push_bit_8_ucast algebra_simps del: of_nat_mult)
qed

lemma mask_16_numeral: "(0xFFFF :: 32 word) = mask 16"
  by (simp add: mask_eq_exp_minus_1)

lemma unat_and_16: "unat ((x :: 32 word) AND 0xFFFF) = unat x mod 65536"
  unfolding mask_16_numeral
  by (simp add: flip: take_bit_eq_mask) (simp add: unsigned_take_bit_eq take_bit_eq_mod unat_mod)

lemma unat_drop_16: "unat (drop_bit 16 (x :: 32 word)) = unat x div 65536"
  by (simp add: unsigned_drop_bit_eq drop_bit_eq_div unat_div)

lemma unat_fold:
  "unat (ucast ((ac + (drop_bit 16 ac AND 0xFFFF)) AND 0xFFFF :: 32 word) :: 16 word)
   = ((unat ac + (unat ac div 65536) mod 65536) mod 4294967296) mod 65536"
proof -
  have "unat (ucast ((ac + (drop_bit 16 ac AND 0xFFFF)) AND 0xFFFF :: 32 word) :: 16 word)
      = unat ((ac + (drop_bit 16 ac AND 0xFFFF)) AND 0xFFFF) mod 65536"
    by (simp add: unsigned_ucast_eq take_bit_eq_mod)
  also have "\<dots> = (unat (ac + (drop_bit 16 ac AND 0xFFFF)) mod 65536) mod 65536"
    by (simp only: unat_and_16)
  also have "\<dots> = unat (ac + (drop_bit 16 ac AND 0xFFFF)) mod 65536"
    by simp
  also have "unat (ac + (drop_bit 16 ac AND 0xFFFF))
     = (unat ac + (unat ac div 65536) mod 65536) mod 4294967296"
    by (simp only: unat_word_ariths unat_and_16 unat_drop_16) simp
  finally show ?thesis .
qed

text \<open>
  Claim C2. \<^verbatim>\<open>CalculateKeyTag\<close> is a function of the encoded payload bytes alone, and
  its value is the one the specification describes: the bytes read pairwise as big-endian
  16-bit words (an odd last byte being a high byte over a zero low byte), summed in a
  32-bit accumulator, the high 16 bits added once to the low 16 bits, and the low 16 bits
  returned. Being a function, equal payload bytes give equal tags.
\<close>

theorem CalculateKeyTag_is_keytag_spec:
  "unat (CalculateKeyTag rdata) = keytag_spec rdata"
proof -
  have loop: "keyTagLoop 0 0 rdata = of_nat (sum_list (be16_words rdata))"
    using keyTagLoop_even [of 0 0 rdata] by simp
  have "unat (of_nat (sum_list (be16_words rdata)) :: 32 word)
        = sum_list (be16_words rdata) mod 4294967296"
    by (simp add: unat_of_nat)
  then show ?thesis
    by (simp add: CalculateKeyTag_def keytag_spec_def Let_def loop unat_fold)
qed

section \<open>Properties of the character-string codec\<close>

declare chunks255.simps [simp del]
declare charStrLoop.simps [simp del]

text \<open>The chunks of a non-empty string, each behind its length byte.\<close>

definition enc_chunks :: "byte list \<Rightarrow> byte list" where
  "enc_chunks s = concat (map (\<lambda>c. of_nat (length c) # c) (chunks255 s))"

text \<open>The wire length of a non-empty string of \<open>l\<close> bytes.\<close>

definition rest_wire_len :: "nat \<Rightarrow> nat" where
  "rest_wire_len l = l + (l + 254) div 255"

lemma enc_chunks_short:
  "s \<noteq> [] \<Longrightarrow> length s \<le> 255 \<Longrightarrow> enc_chunks s = of_nat (length s) # s"
  by (simp add: enc_chunks_def chunks255.simps [of s] chunks255.simps [of "[]"])

lemma enc_chunks_long:
  "255 < length s \<Longrightarrow> enc_chunks s = 255 # take 255 s @ enc_chunks (drop 255 s)"
  by (subst enc_chunks_def, subst chunks255.simps) (auto simp: enc_chunks_def)

lemma rest_wire_len_long: "255 < l \<Longrightarrow> rest_wire_len l = 256 + rest_wire_len (l - 255)"
proof -
  assume "255 < l"
  then have "l + 254 = (l - 255 + 254) + 255" by simp
  then have "(l + 254) div 255 = (l - 255 + 254) div 255 + 1"
    by (metis div_add_self2 zero_neq_numeral)
  with \<open>255 < l\<close> show ?thesis unfolding rest_wire_len_def by simp
qed

lemma rest_wire_len_short: "0 < l \<Longrightarrow> l \<le> 255 \<Longrightarrow> rest_wire_len l = l + 1"
proof -
  assume "0 < l" "l \<le> 255"
  then have "l + 254 = (l - 1) + 255" "l - 1 < 255" by simp_all
  then have "(l + 254) div 255 = 1"
    by (metis div_add_self2 div_less zero_neq_numeral add_0)
  then show ?thesis unfolding rest_wire_len_def by simp
qed

text \<open>What \<^verbatim>\<open>EncodeCharacterStr\<close> does with the loop's result: the last chunk.\<close>

definition charStrFinish :: "gostring \<Rightarrow> panic + (byte list \<times> nat \<times> nat) \<Rightarrow> panic + byte list" where
  "charStrFinish cStr r =
     (case r of
        Inl p \<Rightarrow> Inl p
      | Inr (b1, rawTvlr, enTvlr) \<Rightarrow>
          if rawTvlr < length cStr then
            (case store_at b1 enTvlr (of_nat (length cStr - rawTvlr)) of
               Inl p \<Rightarrow> Inl p
             | Inr b2 \<Rightarrow>
                (case slice cStr rawTvlr (length cStr) of
                   Inl p \<Rightarrow> Inl p
                 | Inr src \<Rightarrow> copy_from b2 (enTvlr + 1) src))
          else Inr b1)"

lemma take_Suc_update: "i < length xs \<Longrightarrow> take (Suc i) (xs[i := v]) = take i xs @ [v]"
  by (simp add: take_Suc_conv_app_nth)

lemma write_chunk:
  assumes "en + 1 + length src \<le> length arr"
  shows "store_at arr en v = Inr (arr[en := v])"
    and "copy_from (arr[en := v]) (en + 1) src
         = Inr (take en arr @ v # src @ drop (en + 1 + length src) arr)"
proof -
  from assms have lt: "en < length arr" by simp
  then show "store_at arr en v = Inr (arr[en := v])" by (simp add: store_at_def)
  have "length src \<le> length arr - (en + 1)" using assms by simp
  then have "take (length arr - (en + 1)) src = src" by simp
  moreover have "take (en + 1) (arr[en := v]) = take en arr @ [v]"
    using take_Suc_update [OF lt] by simp
  moreover have "drop (en + 1 + length src) (arr[en := v]) = drop (en + 1 + length src) arr"
    by simp
  ultimately show "copy_from (arr[en := v]) (en + 1) src
         = Inr (take en arr @ v # src @ drop (en + 1 + length src) arr)"
    using assms unfolding copy_from_def by simp
qed

lemma charStrLoop_correct:
  "raw < length cStr \<Longrightarrow> en + rest_wire_len (length cStr - raw) = length arr \<Longrightarrow>
   charStrFinish cStr (charStrLoop cStr arr raw en) = Inr (take en arr @ enc_chunks (drop raw cStr))"
proof (induction cStr arr raw en rule: charStrLoop.induct)
  case (1 cStr byteArray rawTvlr enTvlr)
  let ?l = "length cStr - rawTvlr"
  show ?case
  proof (cases "rawTvlr + 255 < length cStr")
    case True
    then have long: "255 < ?l" by simp
    let ?src = "take 255 (drop rawTvlr cStr)"
    have lsrc: "length ?src = 255" using True by simp
    have len: "length byteArray = enTvlr + 256 + rest_wire_len (?l - 255)"
      using 1(3) rest_wire_len_long [OF long] by simp
    then have fits: "enTvlr + 1 + length ?src \<le> length byteArray"
      unfolding lsrc by simp
    have sl: "slice cStr rawTvlr (rawTvlr + 255) = Inr ?src"
      using True by (simp add: slice_def)
    let ?b2 = "take enTvlr byteArray @ 255 # ?src @ drop (enTvlr + 1 + length ?src) byteArray"
    note st = write_chunk(1) [OF fits, of 255]
    note cp = write_chunk(2) [OF fits, of 255]
    have lb2: "length ?b2 = length byteArray"
      using fits by simp
    have rec: "charStrFinish cStr (charStrLoop cStr ?b2 (rawTvlr + 255) (enTvlr + 256))
          = Inr (take (enTvlr + 256) ?b2 @ enc_chunks (drop (rawTvlr + 255) cStr))"
    proof (rule 1(1) [OF True st sl cp])
      show "rawTvlr + 255 < length cStr" by (rule True)
      show "enTvlr + 256 + rest_wire_len (length cStr - (rawTvlr + 255)) = length ?b2"
        unfolding lb2 using len by simp
    qed
    have lt: "length (take enTvlr byteArray) = enTvlr" using fits by simp
    have tk: "take (enTvlr + 256) ?b2 = take enTvlr byteArray @ 255 # ?src"
      using lt lsrc by (simp del: length_take)
    have ch: "enc_chunks (drop rawTvlr cStr)
        = 255 # ?src @ enc_chunks (drop (rawTvlr + 255) cStr)"
      using enc_chunks_long [of "drop rawTvlr cStr"] long by (simp add: add.commute)
    have "charStrLoop cStr byteArray rawTvlr enTvlr
          = charStrLoop cStr ?b2 (rawTvlr + 255) (enTvlr + 256)"
      by (subst charStrLoop.simps) (simp only: True if_True st sl cp sum.case)
    then show ?thesis
      by (simp only: rec tk ch append_assoc append_Cons)
  next
    case False
    with 1(2) have short: "0 < ?l" "?l \<le> 255" by simp_all
    let ?src = "drop rawTvlr cStr"
    have len: "length byteArray = enTvlr + ?l + 1"
      using 1(3) rest_wire_len_short [OF short] by simp
    then have fits: "enTvlr + 1 + length ?src \<le> length byteArray" by simp
    have sl: "slice cStr rawTvlr (length cStr) = Inr ?src"
      using 1(2) by (simp add: slice_def)
    have ch: "enc_chunks ?src = of_nat ?l # ?src"
      using enc_chunks_short [of ?src] short by simp
    have dr: "drop (enTvlr + 1 + length ?src) byteArray = []"
      using len by simp
    have lp: "charStrLoop cStr byteArray rawTvlr enTvlr = Inr (byteArray, rawTvlr, enTvlr)"
      by (subst charStrLoop.simps) (simp only: False if_False)
    note st = write_chunk(1) [OF fits, of "of_nat ?l"]
    note cp = write_chunk(2) [OF fits, of "of_nat ?l"]
    show ?thesis
      unfolding lp charStrFinish_def
      by (simp only: sum.case prod.case 1(2) if_True st sl cp dr ch append_Nil2)
  qed
qed


lemma charstr_spec_enc: "s \<noteq> [] \<Longrightarrow> charstr_spec s = enc_chunks s"
  by (simp add: charstr_spec_def enc_chunks_def)

lemma wire_len_rest: "s \<noteq> [] \<Longrightarrow> GetCharacterStrWireLen s = rest_wire_len (length s)"
  by (simp add: GetCharacterStrWireLen_def rest_wire_len_def Let_def)

lemma EncodeCharacterStr_finish:
  "s \<noteq> [] \<Longrightarrow> EncodeCharacterStr s
     = charStrFinish s (charStrLoop s (replicate (GetCharacterStrWireLen s) 0) 0 0)"
  by (simp add: EncodeCharacterStr_def charStrFinish_def Let_def)

lemma EncodeCharacterStr_spec: "EncodeCharacterStr s = Inr (charstr_spec s)"
proof (cases "s = []")
  case True
  then show ?thesis by (simp add: EncodeCharacterStr_def charstr_spec_def)
next
  case False
  then have "0 < length s" by simp
  moreover have "0 + rest_wire_len (length s - 0) = length (replicate (GetCharacterStrWireLen s) (0::byte))"
    using False by (simp add: wire_len_rest)
  ultimately have "charStrFinish s (charStrLoop s (replicate (GetCharacterStrWireLen s) 0) 0 0)
      = Inr (take 0 (replicate (GetCharacterStrWireLen s) 0) @ enc_chunks (drop 0 s))"
    by (rule charStrLoop_correct)
  then show ?thesis using False
    by (simp add: EncodeCharacterStr_finish charstr_spec_enc)
qed

lemma length_enc_chunks: "s \<noteq> [] \<Longrightarrow> length (enc_chunks s) = rest_wire_len (length s)"
proof (induction s rule: chunks255.induct)
  case (1 s)
  show ?case
  proof (cases "255 < length s")
    case True
    then have ne: "drop 255 s \<noteq> []" by simp
    have "length (enc_chunks s) = 256 + length (enc_chunks (drop 255 s))"
      using True by (simp add: enc_chunks_long)
    also have "\<dots> = 256 + rest_wire_len (length s - 255)"
      using 1(1) [OF 1(2) ne] by simp
    finally show ?thesis using rest_wire_len_long [OF True] by simp
  next
    case False
    then have "length s \<le> 255" "0 < length s" using 1(2) by simp_all
    then show ?thesis using 1(2)
      by (simp add: enc_chunks_short rest_wire_len_short)
  qed
qed

lemma chunks255_pieces:
  "concat (chunks255 s) = s \<and> (\<forall>c \<in> set (chunks255 s). 0 < length c \<and> length c \<le> 255)"
proof (induction s rule: chunks255.induct)
  case (1 s)
  show ?case
  proof (cases "s = []")
    case True
    then show ?thesis by (simp add: chunks255.simps [of "[]"])
  next
    case False
    have "chunks255 s = take 255 s # chunks255 (drop 255 s)"
      using False by (subst chunks255.simps) simp
    then show ?thesis using 1 [OF False] False by simp
  qed
qed

lemma ceiling_255: "int ((n + 254) div 255) = \<lceil>real n / 255\<rceil>"
proof -
  let ?k = "(n + 254) div 255"
  have lo: "?k * 255 \<le> n + 254" by (rule div_times_less_eq_dividend)
  have "n + 254 < 255 + 255 * ?k" by (rule dividend_less_times_div) simp
  then have hi: "n \<le> ?k * 255" by simp
  have "real (?k * 255) \<le> real (n + 254)" using lo by (rule of_nat_mono)
  then have lo': "real ?k * 255 \<le> real n + 254" by simp
  have "real n \<le> real (?k * 255)" using hi by (rule of_nat_mono)
  then have hi': "real n \<le> real ?k * 255" by simp
  have "\<lceil>real n / 255\<rceil> = int ?k"
  proof (rule ceiling_unique)
    show "real_of_int (int ?k) - 1 < real n / 255" using lo' by simp
    show "real n / 255 \<le> real_of_int (int ?k)" using hi' by simp
  qed
  then show ?thesis by simp
qed

lemma charstr_300:
  assumes "length s = 300"
  shows "charstr_spec s = 255 # take 255 s @ 45 # drop 255 s"
proof -
  have ne: "s \<noteq> []" using assms by auto
  have "enc_chunks s = 255 # take 255 s @ enc_chunks (drop 255 s)"
    using assms by (simp add: enc_chunks_long)
  moreover have "enc_chunks (drop 255 s) = of_nat (length (drop 255 s)) # drop 255 s"
    by (rule enc_chunks_short) (use assms in auto)
  ultimately show ?thesis using assms ne by (simp add: charstr_spec_enc)
qed

text \<open>
  Claim C9. The wire length of a character string is its length plus the number of
  chunks, \<open>len + ceil(len / 255)\<close>, and 1 for the empty string; \<^verbatim>\<open>EncodeCharacterStr\<close>
  never panics and returns the successive chunks of the string, each of 1 to 255 bytes
  and each behind its own length byte, in as many bytes as the wire length says; a
  string of 300 bytes is a chunk of 255 bytes followed by one of 45 bytes, 302 bytes in
  all; and the empty string is the single byte \<open>0x00\<close>.
\<close>

theorem character_string_wire_format:
  "int (GetCharacterStrWireLen s)
     = (if s = [] then 1 else int (length s) + \<lceil>real (length s) / 255\<rceil>)
   \<and> EncodeCharacterStr s = Inr (charstr_spec s)
   \<and> length (charstr_spec s) = GetCharacterStrWireLen s
   \<and> concat (chunks255 s) = s
   \<and> (\<forall>c \<in> set (chunks255 s). 0 < length c \<and> length c \<le> 255)
   \<and> (length s = 300 \<longrightarrow>
        EncodeCharacterStr s = Inr (255 # take 255 s @ 45 # drop 255 s)
        \<and> GetCharacterStrWireLen s = 302)
   \<and> EncodeCharacterStr [] = Inr [0x00]"
proof (intro conjI impI)
  show "int (GetCharacterStrWireLen s)
     = (if s = [] then 1 else int (length s) + \<lceil>real (length s) / 255\<rceil>)"
    by (simp add: GetCharacterStrWireLen_def Let_def flip: ceiling_255)
  show "EncodeCharacterStr s = Inr (charstr_spec s)" by (rule EncodeCharacterStr_spec)
  show "length (charstr_spec s) = GetCharacterStrWireLen s"
  proof (cases "s = []")
    case True
    then show ?thesis by (simp add: charstr_spec_def GetCharacterStrWireLen_def)
  next
    case False
    then show ?thesis by (simp add: charstr_spec_enc length_enc_chunks wire_len_rest)
  qed
  show "concat (chunks255 s) = s" using chunks255_pieces by blast
  show "\<forall>c \<in> set (chunks255 s). 0 < length c \<and> length c \<le> 255"
    using chunks255_pieces by blast
  show "EncodeCharacterStr [] = Inr [0x00]" by (simp add: EncodeCharacterStr_def)
next
  assume l: "length s = 300"
  then show "EncodeCharacterStr s = Inr (255 # take 255 s @ 45 # drop 255 s)"
    by (simp add: EncodeCharacterStr_spec charstr_300)
  show "GetCharacterStrWireLen s = 302"
    using l by (simp add: GetCharacterStrWireLen_def)
qed

theorem character_string_wire_format_witness:
  "GetCharacterStrWireLen (replicate 300 0x61) = 302
   \<and> EncodeCharacterStr (replicate 300 0x61)
       = Inr (255 # replicate 255 0x61 @ 45 # replicate 45 0x61)"
proof -
  let ?s = "replicate 300 (0x61::byte)"
  have l: "length ?s = 300" by simp
  note t = character_string_wire_format [of ?s]
  from t l have "EncodeCharacterStr ?s = Inr (255 # take 255 ?s @ 45 # drop 255 ?s)"
    by blast
  moreover from t l have "GetCharacterStrWireLen ?s = 302" by blast
  ultimately show ?thesis by simp
qed

section \<open>Properties of the domain-name codec\<close>

declare rangeIndices.simps [simp del]

lemma accept_length: "accept rs r \<Longrightarrow> length rs \<le> length r"
  by (induction rs r rule: accept.induct) auto

lemma accept_nth: "accept rs r \<Longrightarrow> j < length rs \<Longrightarrow> fst (rs ! j) \<le> unat (r ! j)"
  by (induction rs r arbitrary: j rule: accept.induct) (auto simp: nth_Cons')

lemma contRanges_set: "r \<in> set (contRanges x) \<Longrightarrow> 0x80 \<le> fst r"
  unfolding contRanges_def by (auto split: if_splits)

lemma contRanges_low: "j < length (contRanges x) \<Longrightarrow> 0x80 \<le> fst (contRanges x ! j)"
  by (rule contRanges_set [of _ x]) simp

lemma runeWidth_le: "s \<noteq> [] \<Longrightarrow> runeWidth s \<le> length s"
  by (cases s) (auto simp: runeWidth_def Let_def dest: accept_length)

lemma runeWidth_cont:
  assumes "0 < j" "j < runeWidth s"
  shows "0x80 \<le> unat (s ! j)"
proof (cases s)
  case Nil
  with assms show ?thesis by (simp add: runeWidth_def)
next
  case (Cons b rest)
  let ?rs = "contRanges (unat b)"
  from assms Cons have acc: "accept ?rs rest" and j: "j - 1 < length ?rs"
    by (auto simp: runeWidth_def Let_def split: if_splits)
  have "0x80 \<le> fst (?rs ! (j - 1))" using j by (rule contRanges_low)
  also have "\<dots> \<le> unat (rest ! (j - 1))" using acc j by (rule accept_nth)
  finally show ?thesis using Cons assms(1) by (simp add: nth_Cons')
qed

lemma runeWidth_ascii: "unat b < 0x80 \<Longrightarrow> runeWidth (b # rest) = 1"
  by (simp add: runeWidth_def contRanges_def)


lemma unat_dot: "unat dot = 46"
  by (simp add: dot_def)

lemma copy_from_ok:
  "off \<le> length dst \<Longrightarrow> \<exists>b. copy_from dst off src = Inr b \<and> length b = length dst"
  by (auto simp: copy_from_def)

lemma encodeStep_ok:
  assumes "index < length name" "labelLength \<le> index" "length name < length arr"
  shows "\<exists>arr' l'. encodeStep name arr labelLength index = Inr (arr', l')
           \<and> length arr' = length arr \<and> l' \<le> index + 1 \<and> (name ! index = dot \<longrightarrow> l' = 0)"
proof (cases "name ! index = dot")
  case True
  have st: "store_at arr (index - labelLength) (of_nat labelLength)
            = Inr (arr[index - labelLength := of_nat labelLength])"
    using assms by (simp add: store_at_def)
  have sl: "slice name (index - labelLength) index
            = Inr (take labelLength (drop (index - labelLength) name))"
    using assms by (simp add: slice_def)
  have off: "index - labelLength + 1 \<le> length (arr[index - labelLength := of_nat labelLength])"
    using assms by simp
  from copy_from_ok [OF off]
  obtain b2 where cp: "copy_from (arr[index - labelLength := of_nat labelLength])
           (index - labelLength + 1) (take labelLength (drop (index - labelLength) name)) = Inr b2"
      and lb0: "length b2 = length (arr[index - labelLength := of_nat labelLength])" by blast
  have lb: "length b2 = length arr" using lb0 by simp
  have "encodeStep name arr labelLength index = Inr (b2, 0)"
    using assms True st sl cp by (simp add: encodeStep_def index_at_def del: length_list_update)
  then show ?thesis using lb by simp
next
  case False
  then show ?thesis using assms by (simp add: encodeStep_def index_at_def)
qed

lemma encodeLoop_ok:
  "s = drop i name \<Longrightarrow> i \<le> length name \<Longrightarrow> ll \<le> i \<Longrightarrow> length name < length arr \<Longrightarrow>
   \<exists>arr' l'. encodeLoop name arr ll (rangeIndices i s) = Inr (arr', l')
      \<and> length arr' = length arr \<and> l' \<le> length name
      \<and> (s \<noteq> [] \<and> last s = dot \<longrightarrow> l' = 0)"
proof (induction i s arbitrary: ll arr rule: rangeIndices.induct)
  case (1 i s)
  show ?case
  proof (cases "s = []")
    case True
    then show ?thesis using 1(3,4) by (simp add: rangeIndices.simps [of i "[]"])
  next
    case False
    let ?w = "runeWidth s"
    have wle: "?w \<le> length s" using False by (rule runeWidth_le)
    have wpos: "0 < ?w" by (rule runeWidth_pos)
    have ilt: "i < length name" using False 1(2,3) by simp
    have hd: "name ! i = s ! 0" using 1(2) ilt by simp
    from encodeStep_ok [OF ilt 1(4) 1(5)]
    obtain a1 l1 where step: "encodeStep name arr ll i = Inr (a1, l1)"
      and la1: "length a1 = length arr" and l1: "l1 \<le> i + 1"
      and l1dot: "name ! i = dot \<longrightarrow> l1 = 0" by blast
    have s': "drop ?w s = drop (i + ?w) name" using 1(2) by (simp add: add.commute)
    have i': "i + ?w \<le> length name" using wle 1(2,3) by simp
    have l1': "l1 \<le> i + ?w" using l1 wpos by simp
    have lt1: "length name < length a1" using 1(5) la1 by simp
    from 1(1) [OF False s' i' l1' lt1]
    obtain a2 l2 where rest: "encodeLoop name a1 l1 (rangeIndices (i + ?w) (drop ?w s)) = Inr (a2, l2)"
      and la2: "length a2 = length a1" and l2: "l2 \<le> length name"
      and l2dot: "drop ?w s \<noteq> [] \<and> last (drop ?w s) = dot \<longrightarrow> l2 = 0" by blast
    have unf: "rangeIndices i s = i # rangeIndices (i + ?w) (drop ?w s)"
      using False by (subst rangeIndices.simps) simp
    have res: "encodeLoop name arr ll (rangeIndices i s) = Inr (a2, l2)"
      by (simp add: unf step rest)
    have "l2 = 0" if ld: "last s = dot"
    proof (cases "drop ?w s = []")
      case True
      then have weq: "?w = length s" using wle by simp
      have "?w = 1"
      proof (rule ccontr)
        assume "?w \<noteq> 1"
        then have "0 < ?w - 1" "?w - 1 < ?w" using wpos by simp_all
        then have "0x80 \<le> unat (s ! (?w - 1))" by (rule runeWidth_cont)
        moreover have "s ! (?w - 1) = last s" using False weq by (simp add: last_conv_nth)
        ultimately show False using ld by (simp add: unat_dot)
      qed
      then have "s ! 0 = last s" using False weq by (simp add: last_conv_nth)
      then have "l1 = 0" using l1dot hd ld by simp
      moreover have "rangeIndices (i + ?w) (drop ?w s) = []"
        using True by (simp add: rangeIndices.simps [of _ "[]"])
      ultimately show ?thesis using rest by simp
    next
      case False
      then have "last (drop ?w s) = last s" by simp
      then show ?thesis using l2dot False ld by simp
    qed
    then show ?thesis using res la2 la1 l2 by simp
  qed
qed

lemma GetDomainNameWireLen_nonempty:
  "name \<noteq> [] \<Longrightarrow> GetDomainNameWireLen name
     = Inr (if last name = dot then (if length name = 1 then 1 else length name + 1)
            else length name + 2)"
  by (simp add: GetDomainNameWireLen_def index_at_def Let_def last_conv_nth)

lemma encodeLabels_ok:
  assumes ne: "name \<noteq> []"
    and len: "encodedLen = (if last name = dot then length name + 1 else length name + 2)"
    and fits: "encodedLen \<le> length arr"
  shows "\<exists>b. encodeLabels name encodedLen arr = Inr b \<and> length b = length arr"
proof -
  have lt: "length name < length arr" using len fits by (simp split: if_splits)
  from encodeLoop_ok [of name 0 name 0 arr] lt ne
  obtain a1 l1 where loop: "encodeLoop name arr 0 (rangeIndices 0 name) = Inr (a1, l1)"
    and la1: "length a1 = length arr" and l1: "l1 \<le> length name"
    and l1dot: "last name = dot \<longrightarrow> l1 = 0" by auto
  show ?thesis
  proof (cases "l1 = 0")
    case True
    then show ?thesis using loop la1 by (simp add: encodeLabels_def)
  next
    case False
    then have rel: "encodedLen = length name + 2" using l1dot len by auto
    have st: "store_at a1 (encodedLen - l1 - 2) (of_nat l1)
              = Inr (a1[encodedLen - l1 - 2 := of_nat l1])"
      using rel l1 la1 fits by (simp add: store_at_def)
    have sl: "slice name (length name - l1) (length name) = Inr (drop (length name - l1) name)"
      using l1 by (simp add: slice_def)
    have off: "encodedLen - l1 - 1 \<le> length (a1[encodedLen - l1 - 2 := of_nat l1])"
      using rel l1 la1 fits by simp
    from copy_from_ok [OF off]
    obtain b where cp: "copy_from (a1[encodedLen - l1 - 2 := of_nat l1]) (encodedLen - l1 - 1)
                          (drop (length name - l1) name) = Inr b"
      and lb0: "length b = length (a1[encodedLen - l1 - 2 := of_nat l1])" by blast
    have lb: "length b = length arr" using lb0 la1 by simp
    have "encodeLabels name encodedLen arr = Inr b"
      using False rel l1 loop st sl cp by (simp add: encodeLabels_def del: length_list_update)
    then show ?thesis using lb by simp
  qed
qed

lemma EncodeDomainName_total:
  assumes "name \<noteq> []"
  shows "\<exists>b. EncodeDomainName name = Inr b"
proof (cases "last name = dot \<and> length name = 1")
  case True
  then show ?thesis using assms
    by (simp add: EncodeDomainName_def GetDomainNameWireLen_nonempty store_at_def)
next
  case False
  let ?n = "if last name = dot then length name + 1 else length name + 2"
  have w: "GetDomainNameWireLen name = Inr ?n"
    using assms False by (auto simp: GetDomainNameWireLen_nonempty)
  have ne1: "?n \<noteq> 1" using assms by auto
  from encodeLabels_ok [OF assms refl, of "replicate ?n 0"]
  obtain b where "encodeLabels name ?n (replicate ?n 0) = Inr b" by auto
  then show ?thesis using ne1 unfolding EncodeDomainName_def w by (simp add: Let_def)
qed

lemma EncodeDomainNameToBuffer_nonempty:
  assumes "name \<noteq> []" and w: "GetDomainNameWireLen name = Inr n"
  shows "length buffer < n \<longrightarrow>
           EncodeDomainNameToBuffer name buffer
             = Inr (buffer, - 1, Some (BufferTooSmall n (length buffer)))"
    and "n \<le> length buffer \<longrightarrow>
           (\<exists>b. EncodeDomainNameToBuffer name buffer = Inr (b, int n, None)
                \<and> length b = length buffer)"
proof -
  show "length buffer < n \<longrightarrow>
           EncodeDomainNameToBuffer name buffer
             = Inr (buffer, - 1, Some (BufferTooSmall n (length buffer)))"
    by (simp add: EncodeDomainNameToBuffer_def w)
  show "n \<le> length buffer \<longrightarrow>
           (\<exists>b. EncodeDomainNameToBuffer name buffer = Inr (b, int n, None)
                \<and> length b = length buffer)"
  proof
    assume fits: "n \<le> length buffer"
    show "\<exists>b. EncodeDomainNameToBuffer name buffer = Inr (b, int n, None)
                \<and> length b = length buffer"
    proof (cases "n = 1")
      case True
      then have "buffer \<noteq> []" using fits by auto
      then show ?thesis using True by (simp add: EncodeDomainNameToBuffer_def w store_at_def)
    next
      case False
      then have "n = (if last name = dot then length name + 1 else length name + 2)"
        using w assms(1) by (auto simp: GetDomainNameWireLen_nonempty split: if_splits)
      from encodeLabels_ok [OF assms(1) this fits]
      obtain b where "encodeLabels name n buffer = Inr b" "length b = length buffer" by auto
      then show ?thesis using False fits by (simp add: EncodeDomainNameToBuffer_def w)
    qed
  qed
qed

text \<open>
  Claim C10. \<^verbatim>\<open>GetDomainNameWireLen\<close> reads the last byte of the name before anything
  else, so on the empty string it, \<^verbatim>\<open>EncodeDomainName\<close> and \<^verbatim>\<open>EncodeDomainNameToBuffer\<close>
  (which call it first) panic with an index out of range; on every non-empty name the
  length is decided by that last byte and all three return: a length, an encoding, and a
  length or an error.
\<close>

theorem empty_name_index_out_of_range:
  "GetDomainNameWireLen [] = Inl IndexOutOfRange
   \<and> EncodeDomainName [] = Inl IndexOutOfRange
   \<and> EncodeDomainNameToBuffer [] buffer = Inl IndexOutOfRange
   \<and> (name \<noteq> [] \<longrightarrow>
        GetDomainNameWireLen name
          = Inr (if last name = dot then (if length name = 1 then 1 else length name + 1)
                 else length name + 2)
        \<and> (\<exists>b. EncodeDomainName name = Inr b)
        \<and> (\<exists>b n e. EncodeDomainNameToBuffer name buffer = Inr (b, n, e)))"
proof (intro conjI impI)
  show "GetDomainNameWireLen [] = Inl IndexOutOfRange"
    by (simp add: GetDomainNameWireLen_def)
  then show "EncodeDomainName [] = Inl IndexOutOfRange"
    by (simp add: EncodeDomainName_def)
  show "EncodeDomainNameToBuffer [] buffer = Inl IndexOutOfRange"
    by (simp add: EncodeDomainNameToBuffer_def GetDomainNameWireLen_def)
next
  assume ne: "name \<noteq> []"
  let ?n = "if last name = dot then (if length name = 1 then 1 else length name + 1)
            else length name + 2"
  show w: "GetDomainNameWireLen name = Inr ?n"
    using ne by (rule GetDomainNameWireLen_nonempty)
  show "\<exists>b. EncodeDomainName name = Inr b"
    using ne by (rule EncodeDomainName_total)
  show "\<exists>b n e. EncodeDomainNameToBuffer name buffer = Inr (b, n, e)"
  proof (cases "length buffer < ?n")
    case True
    with EncodeDomainNameToBuffer_nonempty(1) [OF ne w, of buffer] show ?thesis by blast
  next
    case False
    then have "?n \<le> length buffer" by simp
    with EncodeDomainNameToBuffer_nonempty(2) [OF ne w, of buffer] show ?thesis by blast
  qed
qed

theorem empty_name_index_out_of_range_witness:
  "GetDomainNameWireLen [] = Inl IndexOutOfRange
   \<and> EncodeDomainName [] = Inl IndexOutOfRange
   \<and> EncodeDomainNameToBuffer [] [0x00, 0x00] = Inl IndexOutOfRange
   \<and> GetDomainNameWireLen (bytes_of ''com'') = Inr 5
   \<and> (\<exists>b. EncodeDomainName (bytes_of ''com'') = Inr b)
   \<and> (\<exists>b n e. EncodeDomainNameToBuffer (bytes_of ''com'') [0x00, 0x00] = Inr (b, n, e))"
proof -
  have ne: "bytes_of ''com'' \<noteq> []" by (simp add: bytes_of_def)
  have l: "last (bytes_of ''com'') \<noteq> dot" "length (bytes_of ''com'') = 3"
    by (simp_all add: bytes_of_def dot_def)
  from empty_name_index_out_of_range [of "[0x00, 0x00]" "bytes_of ''com''"] ne l
  show ?thesis by simp
qed

text \<open>
  Claim C7 holds where the buffer is too small: the error is returned and the buffer is
  the one given. Where the buffer is large enough, the length is returned with no error
  and a buffer of the same size.
\<close>

lemma EncodeDomainNameToBuffer_too_small_unmodified:
  assumes "name \<noteq> []" and "GetDomainNameWireLen name = Inr n" and "length buffer < n"
  shows "EncodeDomainNameToBuffer name buffer
           = Inr (buffer, - 1, Some (BufferTooSmall n (length buffer)))"
  using EncodeDomainNameToBuffer_nonempty(1) [OF assms(1,2)] assms(3) by blast

text \<open>
  Claim C7 fails where the buffer is large enough: the function never writes the zero
  byte that ends the encoding. \<^verbatim>\<open>EncodeDomainName\<close> has it from the zeroes of
  \<^verbatim>\<open>make\<close>; a buffer that held anything else keeps it. For the name \<open>a\<close> and a buffer
  of three bytes \<open>0x01\<close> the function reports three bytes written with no error, and the
  buffer ends in \<open>0x01\<close>, not in the terminator of the encoding \<open>[1, 'a', 0]\<close>.
\<close>

theorem EncodeDomainNameToBuffer_leaves_terminator_unwritten:
  "EncodeDomainNameToBuffer (bytes_of ''a'') [0x01, 0x01, 0x01]
     = Inr ([0x01, 0x61, 0x01], 3, None)
   \<and> EncodeDomainName (bytes_of ''a'') = Inr [0x01, 0x61, 0x00]"
  by code_simp

text \<open>
  Claim C1 fails on a label that holds a multi-byte UTF-8 sequence. The loop of
  \<^verbatim>\<open>EncodeDomainName\<close> ranges over the code points of the name and counts one per
  code point, then uses the count as a number of bytes: for the two-byte name \<open>C3 A9\<close>
  (the letter e with an acute accent; one label of two bytes, wire form of four bytes)
  the length byte lands one place late, the encoding starts with the zero byte, and
  \<^verbatim>\<open>DecodeDomainName\<close> reads the root name back.
\<close>

theorem EncodeDomainName_utf8_label_not_decoded_back:
  "EncodeDomainName [0xC3, 0xA9] = Inr [0x00, 0x01, 0xA9, 0x00]
   \<and> DecodeDomainName [0x00, 0x01, 0xA9, 0x00] = Inr (bytes_of ''.'')
   \<and> EncodeDomainName ([0xC3, 0xA9] @ bytes_of ''.com'')
       = Inr ([0x00, 0x01, 0xA9, 0x03] @ bytes_of ''com'' @ [0x00])"
  by code_simp

text \<open>
  Claim C6 fails at a compression pointer cut short: the second byte of the pointer is
  read with no check of the length, so a buffer whose last byte starts a pointer is an
  index out of range, not an error returned. The same holds for a label that ends the
  buffer with no byte after it. (Whatever fuel is left, the result is the panic.)
\<close>

theorem DecodeDomainNameFromBuffer_truncated_pointer_panics:
  "DecodeDomainNameFromBuffer (Suc (Suc fuel)) [0xC0] 0 = Some (Inl IndexOutOfRange)
   \<and> DecodeDomainNameFromBuffer (Suc (Suc (Suc fuel))) [0x01, 0x61] 0
       = Some (Inl IndexOutOfRange)"
  by (simp add: index_at_def slice_def)

text \<open>Where the code does check, the error is returned.\<close>

lemma DecodeDomainNameFromBuffer_checked_truncations:
  "DecodeDomainNameFromBuffer (Suc fuel) [] 0 = Some (Inr ([], - 1, Some (BufferTooSmall 1 0)))
   \<and> DecodeDomainNameFromBuffer (Suc (Suc fuel)) [0x02, 0x61] 0
       = Some (Inr ([], - 1, Some (BufferTooSmall 3 2)))"
  by (simp add: index_at_def)

section \<open>Properties of the signature algorithms\<close>

lemma RSASHA256_Sign_spec: "RSASHA256_Sign c data privKey = rsa_sign_spec c RSASHA256 data privKey"
  by (simp add: RSASHA256_Sign_def rsa_sign_spec_def split: option.splits)

lemma RSASHA512_Sign_spec:
  "parsePKCS1PrivateKey c privKey \<noteq> None \<Longrightarrow>
   RSASHA512_Sign c data privKey = rsa_sign_spec c RSASHA512 data privKey"
  by (auto simp: RSASHA512_Sign_def rsa_sign_spec_def split: option.splits)

lemma RSASHA1_Sign_identifier:
  "RSASHA1_Sign c data privKey =
     (case parsePKCS1PrivateKey c privKey of
        None \<Rightarrow> Inr (Inl FailedToParsePrivateKey)
      | Some pKey \<Rightarrow>
         (case signPKCS1v15 c pKey SHA256 (hashSum c SHA1 data) of
            None \<Rightarrow> Inr (Inl FailedToSign)
          | Some signature \<Rightarrow> Inr (Inr signature)))"
  by (simp add: RSASHA1_Sign_def)

text \<open>
  Claim C8 fails for \<^verbatim>\<open>RSASHA1.Sign\<close>: it digests with SHA-1 and hands the digest to
  \<^verbatim>\<open>rsa.SignPKCS1v15\<close> under the identifier \<^verbatim>\<open>crypto.SHA256\<close>, where its siblings name
  the hash they digest with. On the example instance the signature it returns carries
  the tag of SHA-256 over a SHA-1 digest, and is not the signature the specification
  describes.
\<close>

theorem RSASHA1_Sign_wrong_hash_identifier:
  "RSASHA1_Sign exampleCrypto [0x01, 0x02, 0x03] [0x09]
     = Inr (Inr [hashTag SHA256, hashTag SHA1, 0x03, 0x06, 0x09])
   \<and> rsa_sign_spec exampleCrypto RSASHA1 [0x01, 0x02, 0x03] [0x09]
     = Inr (Inr [hashTag SHA1, hashTag SHA1, 0x03, 0x06, 0x09])
   \<and> RSASHA1_Sign exampleCrypto [0x01, 0x02, 0x03] [0x09]
     \<noteq> rsa_sign_spec exampleCrypto RSASHA1 [0x01, 0x02, 0x03] [0x09]"
  by (simp add: RSASHA1_Sign_def rsa_sign_spec_def exampleCrypto_def)

section \<open>Properties of the DNSSEC responder\<close>


lemma CreateDNSSECMat_ksk:
  assumes "CreateDNSSECMat e d zoneName seed = Inr (mat, seed')"
  shows "\<exists>ksk. 1 < length (DNSKEYRespSec mat) \<and> RData (DNSKEYRespSec mat ! 1) = RDATADNSKEY ksk"
  using assms unfolding CreateDNSSECMat_def Let_def
  by (auto split: sum.splits prod.splits)

lemma InitResp_Inr:
  assumes "DNS (DefaultResp d) = Some dflt" "DNS qInfo = Some query"
  shows "InitResp d qInfo =
           Inr ((DefaultResp d)\<lparr> MAC := MAC qInfo, IP := IP qInfo, Port := Port qInfo,
                  DNS := Some \<lparr> Header = (Header dflt)\<lparr> ID := ID (Header query),
                                                           QDCount := QDCount (Header query) \<rparr>,
                                  Question = Question query,
                                  Answer = [], Authority = [], Additional = [] \<rparr> \<rparr>,
                \<lparr> Header = (Header dflt)\<lparr> ID := ID (Header query),
                                             QDCount := QDCount (Header query) \<rparr>,
                   Question = Question query,
                   Answer = [], Authority = [], Additional = [] \<rparr>)"
  using assms by (simp add: InitResp_def Let_def)


lemma getOrCreateMaterial_miss:
  assumes "DNSSECMap w = Some m" "m zoneName = None"
    and "CreateDNSSECMat e d zoneName (entropy w) = Inr (mat, seed')"
  shows "getOrCreateMaterial e d w zoneName
           = Inr (mat, \<lparr> DNSSECMap = Some (m(zoneName \<mapsto> mat)), entropy = seed' \<rparr>)"
  using assms by (simp add: getOrCreateMaterial_def lookupMaterial_def storeMaterial_def)

lemma Response_DNSKEY:
  assumes "DNS (DefaultResp d) = Some dflt" "DNS qInfo = Some query"
    and "Question query = q0 # qs" "QType q0 = DNSRRTypeDNSKEY"
    and "getOrCreateMaterial e d w (QName q0) = Inr (mat, w')"
  shows "\<exists>rInfo rmsg. Response e d qInfo w = Inr (rInfo, w') \<and> DNS rInfo = Some rmsg
           \<and> Answer rmsg = DNSKEYRespSec mat
           \<and> ANCount (Header rmsg) = of_nat (length (DNSKEYRespSec mat))
           \<and> RCode (Header rmsg) = DNSResponseCodeNoErr
           \<and> ID (Header rmsg) = ID (Header query)
           \<and> AA (Header rmsg) = AA (Header dflt)
           \<and> RD (Header rmsg) = RD (Header dflt)
           \<and> RA (Header rmsg) = RA (Header dflt)"
  using assms(3-5)
  by (simp add: Response_def InitResp_Inr [OF assms(1,2)] answerWith_def Let_def)


lemmas example_defs =
  exampleEnv_def exampleCrypto_def exampleCodec_def exampleResponser_def exampleQuery_def
  emptyWorld_def exampleHeader_def

lemmas algorithm_defs =
  DNSSECAlgorithmerFactory_def DNSSECAlgorithmRSASHA1_def DNSSECAlgorithmRSASHA256_def
  DNSSECAlgorithmRSASHA512_def DNSSECAlgorithmECDSAP256SHA256_def
  DNSSECAlgorithmECDSAP384SHA384_def

lemma example_CreateDNSSECMat:
  "\<exists>mat. CreateDNSSECMat exampleEnv (exampleResponser h) zoneName seed = Inr (mat, seed + 2)
         \<and> PrivateZSK mat \<noteq> []"
  by (simp add: CreateDNSSECMat_def GenerateDNSKEY_def GenerateRRSIG_def algorithm_defs
      RSASHA256_Sign_def example_defs Let_def)




text \<open>
  The panic of the last example is no accident of the example. Whenever the library
  gives SHA-1 digests of 20 bytes and refuses to sign, under the SHA-256 identifier, a
  digest that has not 32 bytes, \<^verbatim>\<open>RSASHA1.Sign\<close> returns an error for every input, and so
  no material is ever made for a responder that is configured with RSA-SHA1.
\<close>

lemma RSASHA1_Sign_never_signs:
  assumes "\<And>data. length (hashSum c SHA1 data) = 20"
    and "\<And>k digest. length digest \<noteq> 32 \<Longrightarrow> signPKCS1v15 c k SHA256 digest = None"
  shows "\<exists>err. RSASHA1_Sign c data privKey = Inr (Inl err)"
proof -
  have "signPKCS1v15 c k SHA256 (hashSum c SHA1 data) = None" for k
    using assms(1) [of data] by (intro assms(2)) simp
  then show ?thesis
    by (simp add: RSASHA1_Sign_def Let_def split: option.splits)
qed

lemma CreateDNSSECMat_RSASHA1_panics:
  assumes "\<And>data. length (hashSum (Crypto e) SHA1 data) = 20"
    and "\<And>k digest. length digest \<noteq> 32
           \<Longrightarrow> signPKCS1v15 (Crypto e) k SHA256 digest = None"
    and "dAlgo (DNSSECConf d) = DNSSECAlgorithmRSASHA1"
  shows "\<exists>p. CreateDNSSECMat e d zoneName seed = Inl p"
proof -
  have factory: "DNSSECAlgorithmerFactory DNSSECAlgorithmRSASHA1 = Inr RSASHA1"
    by (simp add: DNSSECAlgorithmerFactory_def)
  have panics: "\<exists>p. GenerateRRSIG e rrSet DNSSECAlgorithmRSASHA1 ex inc tag signer privKey s
                       = Inl p"
    for rrSet ex inc tag signer privKey s
  proof (cases rrSet)
    case Nil
    then show ?thesis by (simp add: GenerateRRSIG_def)
  next
    case (Cons rr0 others)
    let ?text = "rrsigEncode (Codec e)
                   \<lparr> TypeCovered = Type rr0, SigAlgorithm = DNSSECAlgorithmRSASHA1,
                     Labels = of_nat (CountDomainNameLabels (Codec e) (Name rr0)),
                     OriginalTTL = TTL rr0, Expiration = ex, Inception = inc, KeyTag = tag,
                     SignerName = signer, Signature = [] \<rparr>
                 @ concat (map (rrEncode (Codec e)) rrSet)"
    from RSASHA1_Sign_never_signs [OF assms(1,2), of ?text privKey]
    obtain err where "RSASHA1_Sign (Crypto e) ?text privKey = Inr (Inl err)" by blast
    then show ?thesis using Cons by (simp add: GenerateRRSIG_def Let_def factory)
  qed
  have never: "GenerateRRSIG e rrSet DNSSECAlgorithmRSASHA1 ex inc tag signer privKey s \<noteq> Inr r"
    for rrSet ex inc tag signer privKey s r
    using panics [of rrSet ex inc tag signer privKey s] by auto
  show ?thesis
    unfolding CreateDNSSECMat_def Let_def assms(3)
    by (auto simp add: never split: sum.splits prod.splits)
qed

lemma answerWith_header:
  "DNS (answerWith rInfo msg answer count) =
     Some (msg\<lparr> Answer := answer,
                Header := (Header msg)\<lparr> ANCount := count, RCode := DNSResponseCodeNoErr \<rparr> \<rparr>)"
  by (simp add: answerWith_def)

lemma signedAnswer_Inr:
  "signedAnswer e d rInfo msg qName rec signer mat w = Inr (r, w') \<Longrightarrow>
   \<exists>sigRec. r = answerWith rInfo msg [rec, sigRec] 2"
  by (auto simp: signedAnswer_def Let_def split: sum.splits prod.splits)

lemma Response_answerWith:
  assumes "Response e d qInfo w = Inr (rInfo, w')"
  shows "\<exists>query dflt r0 msg answer.
           DNS qInfo = Some query \<and> DNS (DefaultResp d) = Some dflt
         \<and> InitResp d qInfo = Inr (r0, msg)
         \<and> rInfo = answerWith r0 msg answer (of_nat (length answer))"
proof -
  from assms obtain r0 msg where init: "InitResp d qInfo = Inr (r0, msg)"
    by (auto simp: Response_def split: sum.splits)
  then obtain query dflt where qd: "DNS qInfo = Some query" "DNS (DefaultResp d) = Some dflt"
    by (auto simp: InitResp_def split: option.splits)
  from assms init obtain q0 qs where q: "Question msg = q0 # qs"
    by (cases "Question msg") (auto simp: Response_def)
  have "\<exists>answer. rInfo = answerWith r0 msg answer (of_nat (length answer))"
  proof (cases "QType q0 = DNSRRTypeDNSKEY")
    case True
    with assms init q show ?thesis
      by (auto simp: Response_def Let_def split: sum.splits prod.splits)
  next
    case notkey: False
    show ?thesis
    proof (cases "QType q0 = DNSRRTypeDS")
      case True
      with assms init q notkey obtain rec signer mat where
        "signedAnswer e d r0 msg (QName q0) rec signer mat w = Inr (rInfo, w')"
        by (auto simp: Response_def Let_def
            split: sum.splits prod.splits if_splits DNSRRRDATA.splits)
      from signedAnswer_Inr [OF this] show ?thesis
        by (metis length_Cons list.size(3) numeral_2_eq_2 of_nat_numeral)
    next
      case False
      with assms init q notkey obtain rec signer mat w1 where
        "signedAnswer e d r0 msg (QName q0) rec signer mat w1 = Inr (rInfo, w')"
        by (auto simp: Response_def Let_def split: sum.splits prod.splits)
      from signedAnswer_Inr [OF this] show ?thesis
        by (metis length_Cons list.size(3) numeral_2_eq_2 of_nat_numeral)
    qed
  qed
  with qd init show ?thesis by blast
qed

text \<open>
  Claim C5, amended. A response that \<^verbatim>\<open>Response\<close> returns has the identifier, the
  question count and the questions of the query, an answer count that is the number of
  its answer records, and the response code no-error. Its flags authoritative-answer,
  recursion-desired and recursion-available are not set by \<^verbatim>\<open>Response\<close>: they are the
  flags of the configured default response.
\<close>

theorem Response_header_from_query_and_default:
  assumes "Response e d qInfo w = Inr (rInfo, w')"
  shows "\<exists>query dflt rmsg.
           DNS qInfo = Some query \<and> DNS (DefaultResp d) = Some dflt \<and> DNS rInfo = Some rmsg
         \<and> ID (Header rmsg) = ID (Header query)
         \<and> Question rmsg = Question query
         \<and> QDCount (Header rmsg) = QDCount (Header query)
         \<and> ANCount (Header rmsg) = of_nat (length (Answer rmsg))
         \<and> RCode (Header rmsg) = DNSResponseCodeNoErr
         \<and> AA (Header rmsg) = AA (Header dflt)
         \<and> RD (Header rmsg) = RD (Header dflt)
         \<and> RA (Header rmsg) = RA (Header dflt)"
proof -
  from Response_answerWith [OF assms]
  obtain query dflt r0 msg answer where
    qd: "DNS qInfo = Some query" "DNS (DefaultResp d) = Some dflt"
    and init: "InitResp d qInfo = Inr (r0, msg)"
    and r: "rInfo = answerWith r0 msg answer (of_nat (length answer))" by blast
  have msg: "msg = \<lparr> Header = (Header dflt)\<lparr> ID := ID (Header query),
                                              QDCount := QDCount (Header query) \<rparr>,
                      Question = Question query,
                      Answer = [], Authority = [], Additional = [] \<rparr>"
    using init InitResp_Inr [OF qd(2) qd(1)] by simp
  show ?thesis
    using qd unfolding r answerWith_header msg by simp
qed


lemma example_Response_DNSKEY:
  "\<exists>rInfo rmsg mat.
      Response exampleEnv (exampleResponser h) (exampleQuery ident DNSRRTypeDNSKEY zoneName)
        emptyWorld
        = Inr (rInfo, \<lparr> DNSSECMap = Some [bytes_of zoneName \<mapsto> mat], entropy = 2 \<rparr>)
    \<and> CreateDNSSECMat exampleEnv (exampleResponser h) (bytes_of zoneName) 0 = Inr (mat, 2)
    \<and> DNS rInfo = Some rmsg
    \<and> RCode (Header rmsg) = DNSResponseCodeNoErr
    \<and> ID (Header rmsg) = ident
    \<and> AA (Header rmsg) = AA h \<and> RD (Header rmsg) = RD h \<and> RA (Header rmsg) = RA h"
proof -
  let ?q = "\<lparr> QName = bytes_of zoneName, QType = DNSRRTypeDNSKEY, QClass = DNSClassIN \<rparr>"
  let ?d = "exampleResponser h"
  obtain mat where made: "CreateDNSSECMat exampleEnv ?d (bytes_of zoneName) 0 = Inr (mat, 2)"
    using example_CreateDNSSECMat [of h "bytes_of zoneName" 0] by auto
  obtain query where q: "DNS (exampleQuery ident DNSRRTypeDNSKEY zoneName) = Some query"
    "Question query = ?q # []" "ID (Header query) = ident" by (simp add: exampleQuery_def)
  obtain dflt where d: "DNS (DefaultResp ?d) = Some dflt" "Header dflt = h"
    by (simp add: exampleResponser_def)
  have "getOrCreateMaterial exampleEnv ?d emptyWorld (QName ?q)
          = Inr (mat, \<lparr> DNSSECMap = Some [QName ?q \<mapsto> mat], entropy = 2 \<rparr>)"
    by (rule getOrCreateMaterial_miss) (simp_all add: emptyWorld_def made)
  from Response_DNSKEY [OF d(1) q(1,2) _ this] q(3) d(2) made
  show ?thesis by auto
qed


theorem Response_header_from_query_and_default_witness:
  "\<exists>rInfo w' rmsg.
      Response exampleEnv (exampleResponser exampleHeader)
        (exampleQuery 0x47A0 DNSRRTypeDNSKEY ''example.'') emptyWorld = Inr (rInfo, w')
    \<and> DNS rInfo = Some rmsg
    \<and> ID (Header rmsg) = 0x47A0
    \<and> QDCount (Header rmsg) = 1
    \<and> ANCount (Header rmsg) = of_nat (length (Answer rmsg))
    \<and> RCode (Header rmsg) = DNSResponseCodeNoErr
    \<and> AA (Header rmsg) \<and> \<not> RD (Header rmsg) \<and> \<not> RA (Header rmsg)"
proof -
  let ?d = "exampleResponser exampleHeader"
  let ?q = "exampleQuery 0x47A0 DNSRRTypeDNSKEY ''example.''"
  from example_Response_DNSKEY [of exampleHeader "0x47A0" "''example.''"]
  obtain rInfo w' where ret: "Response exampleEnv ?d ?q emptyWorld = Inr (rInfo, w')" by blast
  from Response_header_from_query_and_default [OF ret]
  obtain query dflt rmsg where
    r: "DNS ?q = Some query" "DNS (DefaultResp ?d) = Some dflt" "DNS rInfo = Some rmsg"
       "ID (Header rmsg) = ID (Header query)"
       "QDCount (Header rmsg) = QDCount (Header query)"
       "ANCount (Header rmsg) = of_nat (length (Answer rmsg))"
       "RCode (Header rmsg) = DNSResponseCodeNoErr"
       "AA (Header rmsg) = AA (Header dflt)"
       "RD (Header rmsg) = RD (Header dflt)"
       "RA (Header rmsg) = RA (Header dflt)" by blast
  from r(1) have q: "ID (Header query) = 0x47A0" "QDCount (Header query) = 1"
    by (auto simp: exampleQuery_def)
  from r(2) have d: "Header dflt = exampleHeader" by (auto simp: exampleResponser_def)
  have "ID (Header rmsg) = 0x47A0" "QDCount (Header rmsg) = 1"
    "AA (Header rmsg)" "\<not> RD (Header rmsg)" "\<not> RA (Header rmsg)"
    using r(4,5,8-10) q d by (simp_all add: exampleHeader_def)
  with ret r(3,6,7) show ?thesis by blast
qed

text \<open>
  Claim C5 as stated fails: with a default response whose header has the
  authoritative-answer flag off and the recursion flags on, the answer has them so.
\<close>

theorem Response_flags_not_fixed_counterexample:
  "\<exists>rInfo w' rmsg.
      Response exampleEnv (exampleResponser (exampleHeader\<lparr> AA := False, RD := True, RA := True \<rparr>))
        (exampleQuery 0x47A0 DNSRRTypeDNSKEY ''example.'') emptyWorld = Inr (rInfo, w')
    \<and> DNS rInfo = Some rmsg
    \<and> RCode (Header rmsg) = DNSResponseCodeNoErr
    \<and> \<not> AA (Header rmsg) \<and> RD (Header rmsg) \<and> RA (Header rmsg)"
  using example_Response_DNSKEY
          [of "exampleHeader\<lparr> AA := False, RD := True, RA := True \<rparr>" "0x47A0" "''example.''"]
  by auto

lemma GenerateDS_returns:
  assumes "oName \<noteq> []"
    and "digestType = DNSSECDigestTypeSHA1 \<or> digestType = DNSSECDigestTypeSHA256
         \<or> digestType = DNSSECDigestTypeSHA384"
  shows "\<exists>ds. GenerateDS e oName kRDATA digestType = Inr ds"
proof -
  let ?n = "if last oName = dot then (if length oName = 1 then 1 else length oName + 1)
            else length oName + 2"
  let ?key = "dnskeyEncode (Codec e) kRDATA"
  let ?pText = "replicate (?n + length ?key) (0::byte)"
  have w: "GetDomainNameWireLen oName = Inr ?n"
    using assms(1) by (rule GetDomainNameWireLen_nonempty)
  have "?n \<le> length ?pText" by simp
  with EncodeDomainNameToBuffer_nonempty(2) [OF assms(1) w, of ?pText]
  obtain b where enc: "EncodeDomainNameToBuffer oName ?pText = Inr (b, int ?n, None)"
    and lb: "length b = length ?pText" by blast
  have "nat (int ?n) \<le> length b" using lb by simp
  from copy_from_ok [OF this]
  obtain b' where cp: "copy_from b (nat (int ?n)) ?key = Inr b'" by blast
  show ?thesis
    using assms(2) unfolding GenerateDS_def Let_def w
    by (auto simp: enc cp simp del: nat_int)
qed

lemma Response_DS_never_materializes:
  assumes "DNS qInfo = Some query" "Question query = q0 # qs" "QType q0 = DNSRRTypeDS"
    and "Response e d qInfo w = Inr (rInfo, w')"
  shows "DNSSECMap w' = DNSSECMap w"
proof -
  have ne: "DNSRRTypeDS \<noteq> DNSRRTypeDNSKEY"
    by (simp add: DNSRRTypeDS_def DNSRRTypeDNSKEY_def)
  from assms(4) obtain r0 msg where init: "InitResp d qInfo = Inr (r0, msg)"
    by (auto simp: Response_def split: sum.splits)
  with assms(1) have q: "Question msg = q0 # qs"
    using assms(2) by (auto simp: InitResp_def Let_def split: option.splits)
  from assms(3,4) init q ne obtain rec signer mat where
    "signedAnswer e d r0 msg (QName q0) rec signer mat w = Inr (rInfo, w')"
    by (auto simp: Response_def Let_def
        split: sum.splits prod.splits if_splits DNSRRRDATA.splits)
  then show ?thesis
    by (auto simp: signedAnswer_def Let_def split: sum.splits prod.splits)
qed


lemma type_codes_distinct:
  "DNSRRTypeDS \<noteq> DNSRRTypeDNSKEY" "DNSRRTypeA \<noteq> DNSRRTypeDNSKEY" "DNSRRTypeA \<noteq> DNSRRTypeDS"
  by (simp_all add: DNSRRTypeDS_def DNSRRTypeDNSKEY_def DNSRRTypeA_def)

lemma Response_DS_absent_child_panics:
  assumes "DNS (DefaultResp d) = Some dflt" "DNS qInfo = Some query"
    and "Question query = q0 # qs" "QType q0 = DNSRRTypeDS"
    and "lookupMaterial w (QName q0) = None"
  shows "Response e d qInfo w = Inl IndexOutOfRange"
  using assms(3-5) type_codes_distinct
  by (simp add: Response_def InitResp_Inr [OF assms(1,2)] Let_def zeroMaterial_def)

lemma example_signedAnswer_zero:
  "signedAnswer exampleEnv (exampleResponser h) r0 msg qName rec signer zeroMaterial w
     = Inl (ExplicitPanic ''failed to sign RRSIG'')"
  by (simp add: signedAnswer_def GenerateRRSIG_def algorithm_defs RSASHA256_Sign_def
      example_defs zeroMaterial_def Let_def)

lemma example_signedAnswer:
  "PrivateZSK mat \<noteq> [] \<Longrightarrow>
   \<exists>r. signedAnswer exampleEnv (exampleResponser h) r0 msg qName rec signer mat w = Inr (r, w)"
  by (simp add: signedAnswer_def GenerateRRSIG_def algorithm_defs RSASHA256_Sign_def
      example_defs Let_def)

lemma example_upper:
  "GetUpperDomainName (Codec exampleEnv) (bytes_of ''child.example.'') = bytes_of ''example.''"
  by (simp add: example_defs bytes_of_def dot_def)

text \<open>
  Claim C4 fails where the parent zone has no key material yet. The DS branch reads the
  parent's entry of the map and does not make it when it is missing, as the branch for
  the other types does: it signs with the zero material, whose private key is empty. In
  the example, after a DNSKEY query for \<open>child.example.\<close> the DS query for that name
  panics in the signer, and the map never gets an entry for \<open>example.\<close>; an address
  query for the same name makes that entry.
\<close>

theorem DS_query_leaves_parent_unmaterialized:
  "\<exists>r1 w1 r3 w3.
      Response exampleEnv (exampleResponser exampleHeader)
        (exampleQuery 1 DNSRRTypeDNSKEY ''child.example.'') emptyWorld = Inr (r1, w1)
    \<and> lookupMaterial w1 (bytes_of ''child.example.'') \<noteq> None
    \<and> lookupMaterial w1 (bytes_of ''example.'') = None
    \<and> Response exampleEnv (exampleResponser exampleHeader)
        (exampleQuery 2 DNSRRTypeDS ''child.example.'') w1
        = Inl (ExplicitPanic ''failed to sign RRSIG'')
    \<and> Response exampleEnv (exampleResponser exampleHeader)
        (exampleQuery 3 DNSRRTypeA ''child.example.'') w1 = Inr (r3, w3)
    \<and> lookupMaterial w3 (bytes_of ''example.'') \<noteq> None"
proof -
  let ?d = "exampleResponser exampleHeader"
  let ?child = "bytes_of ''child.example.''"
  let ?parent = "bytes_of ''example.''"
  have neq: "?parent \<noteq> ?child" by (simp add: bytes_of_def)
  have ne: "?child \<noteq> []" by (simp add: bytes_of_def)
  have pdot: "?parent \<noteq> [dot]" by (simp add: bytes_of_def)
  from example_Response_DNSKEY [of exampleHeader 1 "''child.example.''"]
  obtain r1 mat where
    first: "Response exampleEnv ?d (exampleQuery 1 DNSRRTypeDNSKEY ''child.example.'') emptyWorld
              = Inr (r1, \<lparr> DNSSECMap = Some [?child \<mapsto> mat], entropy = 2 \<rparr>)"
    and made: "CreateDNSSECMat exampleEnv ?d ?child 0 = Inr (mat, 2)" by blast
  let ?w1 = "\<lparr> DNSSECMap = Some [?child \<mapsto> mat], entropy = 2 \<rparr>"
  have child: "lookupMaterial ?w1 ?child = Some mat" by (simp add: lookupMaterial_def)
  have parent: "lookupMaterial ?w1 ?parent = None" using neq by (simp add: lookupMaterial_def)
  obtain dflt where d: "DNS (DefaultResp ?d) = Some dflt" by (simp add: exampleResponser_def)
  \<comment> \<open>the DS query\<close>
  let ?qds = "\<lparr> QName = ?child, QType = DNSRRTypeDS, QClass = DNSClassIN \<rparr>"
  obtain query2 where q2: "DNS (exampleQuery 2 DNSRRTypeDS ''child.example.'') = Some query2"
    "Question query2 = [?qds]" by (simp add: exampleQuery_def)
  from CreateDNSSECMat_ksk [OF made]
  obtain ksk where ksk: "1 < length (DNSKEYRespSec mat)"
    "RData (DNSKEYRespSec mat ! 1) = RDATADNSKEY ksk" by blast
  obtain ds where ds: "GenerateDS exampleEnv ?child ksk (dType (DNSSECConf ?d)) = Inr ds"
    using GenerateDS_returns [OF ne, of "dType (DNSSECConf ?d)" exampleEnv ksk]
    by (auto simp: exampleResponser_def)
  have second: "Response exampleEnv ?d (exampleQuery 2 DNSRRTypeDS ''child.example.'') ?w1
                  = Inl (ExplicitPanic ''failed to sign RRSIG'')"
    using ksk type_codes_distinct
    by (simp add: Response_def InitResp_Inr [OF d q2(1)] q2(2) Let_def child ds example_upper
        parent example_signedAnswer_zero del: One_nat_def)
  \<comment> \<open>the same name asked for an address\<close>
  let ?qa = "\<lparr> QName = ?child, QType = DNSRRTypeA, QClass = DNSClassIN \<rparr>"
  obtain query3 where q3: "DNS (exampleQuery 3 DNSRRTypeA ''child.example.'') = Some query3"
    "Question query3 = [?qa]" by (simp add: exampleQuery_def)
  from example_CreateDNSSECMat [of exampleHeader ?parent 2]
  obtain pmat where pmade: "CreateDNSSECMat exampleEnv ?d ?parent (entropy ?w1) = Inr (pmat, 4)"
    and pkey: "PrivateZSK pmat \<noteq> []" by auto
  let ?w3 = "\<lparr> DNSSECMap = Some ([?child \<mapsto> mat](?parent \<mapsto> pmat)), entropy = 4 \<rparr>"
  have goc: "getOrCreateMaterial exampleEnv ?d ?w1 ?parent = Inr (pmat, ?w3)"
    by (rule getOrCreateMaterial_miss [OF _ _ pmade]) (use neq in simp_all)
  let ?rec = "\<lparr> Name = ?child, Type = DNSRRTypeA, Class = DNSClassIN, TTL = 86400, RDLen = 0,
                 RData = RDATAA (ServerIP ?d) \<rparr>"
  obtain r0 msg where init: "InitResp ?d (exampleQuery 3 DNSRRTypeA ''child.example.'') = Inr (r0, msg)"
    "Question msg = [?qa]"
    using InitResp_Inr [OF d q3(1)] q3(2) by simp
  from example_signedAnswer [OF pkey]
  obtain r3 where sa: "signedAnswer exampleEnv ?d r0 msg ?child ?rec ?parent pmat ?w3 = Inr (r3, ?w3)"
    by blast
  have third: "Response exampleEnv ?d (exampleQuery 3 DNSRRTypeA ''child.example.'') ?w1
                 = Inr (r3, ?w3)"
    using type_codes_distinct pdot
    by (simp add: Response_def init Let_def example_upper goc sa)
  have "lookupMaterial ?w3 ?parent \<noteq> None" by (simp add: lookupMaterial_def)
  with first child parent second third show ?thesis by blast
qed

end
